theory Spec2Isabelle
  imports Main "HOL-Library.AList"
begin

section \<open>The server runtime request handler (\<^verbatim>\<open>lib/server-runtime/server.ts\<close>)\<close>

text \<open>
  A shallow embedding of \<^verbatim>\<open>createRequestHandler\<close> and of the handlers it
  dispatches to. Asynchronous functions are run to completion: a promise that
  resolves is a returned value, a promise that rejects is a thrown value.
  Objects are values: what the source mutates in place (\<^verbatim>\<open>params\<close>,
  \<^verbatim>\<open>context.errors\<close>, the headers of a thrown response) is a record update.
  The \<^verbatim>\<open>Headers\<close> object that both render passes share is threaded through
  the render function, which may change it; of the other objects handed to a
  collaborator, the collaborator is taken to leave them as they are.
\<close>

subsection \<open>JavaScript and Fetch values\<close>

text \<open>JSON-serialisable data: loader data, manifest entries, serialised errors.\<close>

datatype jsval =
    JNull
  | JBool bool
  | JNum int
  | JStr string
  | JArr "jsval list"
  | JObj "(string \<times> jsval) list"

text \<open>
  An instance of \<^verbatim>\<open>Error\<close> or of one of the subclasses the platform throws,
  by its message.
\<close>

datatype jsError = Error string | TypeError string | RangeError string | URIError string

definition error_message :: "jsError \<Rightarrow> string" where
  "error_message e =
     (case e of Error m \<Rightarrow> m | TypeError m \<Rightarrow> m | RangeError m \<Rightarrow> m | URIError m \<Rightarrow> m)"

datatype ServerMode = Development | Production | Test

text \<open>\<^verbatim>\<open>isServerMode(mode) ? mode : ServerMode.Production\<close> of \<^verbatim>\<open>derive\<close>.\<close>

definition derive_serverMode :: "string option \<Rightarrow> ServerMode" where
  "derive_serverMode mode =
     (if mode = Some ''development'' then Development
      else if mode = Some ''production'' then Production
      else if mode = Some ''test'' then Test
      else Production)"

type_synonym AbortSignal = bool

text \<open>
  What \<^verbatim>\<open>encodeViaTurboStream(data, signal, streamTimeout, serverMode)\<close> is
  applied to: the hand-off state of a document render, or the redirect
  descriptor of a single-fetch redirect, bare or under the key
  \<^verbatim>\<open>SingleFetchRedirectSymbol\<close>. The stream is kept as the arguments it encodes.
\<close>

datatype turboData =
    HandoffState jsval jsval jsval
  | RedirectResult jsval
  | UnderRedirectSymbol jsval

datatype turboStream = TurboStream turboData AbortSignal "nat option" ServerMode

definition encodeViaTurboStream ::
  "turboData \<Rightarrow> AbortSignal \<Rightarrow> nat option \<Rightarrow> ServerMode \<Rightarrow> turboStream" where
  "encodeViaTurboStream d sig timeout serverMode = TurboStream d sig timeout serverMode"

datatype body =
    BodyString string
  | BodyJson jsval
  | BodyStream turboStream

subsection \<open>Headers and responses\<close>

text \<open>
  A \<^verbatim>\<open>Headers\<close> object is its header list, a list of name and value pairs;
  names are compared without regard to ASCII case, as the Fetch standard does.
  \<^verbatim>\<open>get\<close> combines the values of a name, \<^verbatim>\<open>set\<close> puts the value at the
  first header of the name and removes the others, or appends.
\<close>

type_synonym headers = "(string \<times> string) list"

definition lower_char :: "char \<Rightarrow> char" where
  "lower_char c =
     (case map_of (zip ''ABCDEFGHIJKLMNOPQRSTUVWXYZ'' ''abcdefghijklmnopqrstuvwxyz'') c of
        Some d \<Rightarrow> d
      | None \<Rightarrow> c)"

definition same_name :: "string \<Rightarrow> string \<Rightarrow> bool" where
  "same_name a b = (map lower_char a = map lower_char b)"

definition Headers_get :: "string \<Rightarrow> headers \<Rightarrow> string option" where
  "Headers_get name h =
     (case map snd (filter (\<lambda>(n, v). same_name n name) h) of
        [] \<Rightarrow> None
      | v # vs \<Rightarrow> Some (foldl (\<lambda>a b. a @ '', '' @ b) v vs))"

definition Headers_has :: "string \<Rightarrow> headers \<Rightarrow> bool" where
  "Headers_has name h = (Headers_get name h \<noteq> None)"

fun Headers_set :: "string \<Rightarrow> string \<Rightarrow> headers \<Rightarrow> headers" where
  "Headers_set name v [] = [(name, v)]"
| "Headers_set name v ((n, x) # h) =
     (if same_name n name then (n, v) # filter (\<lambda>(n', _). \<not> same_name n' name) h
      else (n, x) # Headers_set name v h)"

text \<open>
  The guard of a \<^verbatim>\<open>Headers\<close> object: \<^verbatim>\<open>set\<close> throws a \<^verbatim>\<open>TypeError\<close> on
  immutable headers, those of a response that \<^verbatim>\<open>fetch\<close>, \<^verbatim>\<open>Response.redirect\<close>
  or \<^verbatim>\<open>Response.error\<close> made. The headers of a response that the constructor
  made have the guard \<^verbatim>\<open>response\<close>.
\<close>

datatype headersGuard = GuardImmutable | GuardResponse

text \<open>
  What iterating a \<^verbatim>\<open>Headers\<close> object gives, and so the header list of
  \<^verbatim>\<open>new Headers(headers)\<close> and of a response constructed with
  \<^verbatim>\<open>{headers}\<close>, \<^verbatim>\<open>headers\<close> being a \<^verbatim>\<open>Headers\<close> object: the names in lower
  case, sorted by their bytes, each once with its combined value, but
  \<^verbatim>\<open>set-cookie\<close> once for each of its values.
\<close>

fun byte_less :: "string \<Rightarrow> string \<Rightarrow> bool" where
  "byte_less [] [] = False"
| "byte_less [] (y # ys) = True"
| "byte_less (x # xs) [] = False"
| "byte_less (x # xs) (y # ys) = ((of_char x :: nat) < of_char y \<or> (x = y \<and> byte_less xs ys))"

fun insert_sorted :: "string \<Rightarrow> string list \<Rightarrow> string list" where
  "insert_sorted n [] = [n]"
| "insert_sorted n (m # ms) =
     (if byte_less n m then n # m # ms else m # insert_sorted n ms)"

definition sorted_lowercase_names :: "headers \<Rightarrow> string list" where
  "sorted_lowercase_names h =
     fold (\<lambda>n ns. if n \<in> set ns then ns else insert_sorted n ns)
       (map (\<lambda>(n, _). map lower_char n) h) []"

definition Headers_copy :: "headers \<Rightarrow> headers" where
  "Headers_copy h =
     concat
       (map (\<lambda>name.
               if name = ''set-cookie''
               then map (\<lambda>v. (name, v)) (map snd (filter (\<lambda>(n, v). same_name n name) h))
               else (case Headers_get name h of Some v \<Rightarrow> [(name, v)] | None \<Rightarrow> []))
          (sorted_lowercase_names h))"

record response =
  status :: nat
  statusText :: string
  headers :: headers
  body :: "body option"

text \<open>
  The response that \<^verbatim>\<open>new Response(body, {status, statusText, headers})\<close>
  builds when it accepts its arguments. As the Fetch standard has it, a string
  body brings the content type \<^verbatim>\<open>text/plain;charset=UTF-8\<close> when the headers
  give none; the callers below pass the defaults (\<^verbatim>\<open>200\<close>, the empty status
  text, no headers) where the source omits them.
\<close>

definition new_Response :: "body option \<Rightarrow> nat \<Rightarrow> string \<Rightarrow> headers \<Rightarrow> response" where
  "new_Response b st stText h =
     \<lparr> status = st, statusText = stText,
       headers =
         (case b of
            Some (BodyString _) \<Rightarrow>
              if Headers_has ''Content-Type'' h then h
              else h @ [(''content-type'', ''text/plain;charset=UTF-8'')]
          | _ \<Rightarrow> h),
       body = b \<rparr>"

text \<open>
  The response that \<^verbatim>\<open>Response.json(data, {status, statusText, headers})\<close>
  builds when it accepts its arguments.
\<close>

definition Response_json :: "jsval \<Rightarrow> nat \<Rightarrow> string \<Rightarrow> headers \<Rightarrow> response" where
  "Response_json d st stText h =
     \<lparr> status = st, statusText = stText,
       headers =
         (if Headers_has ''Content-Type'' h then h
          else h @ [(''content-type'', ''application/json'')]),
       body = Some (BodyJson d) \<rparr>"

subsection \<open>Thrown values\<close>

text \<open>
  \<^verbatim>\<open>ErrorResponseImpl\<close>: a structured route error, with the private
  \<^verbatim>\<open>error\<close> it may wrap.
\<close>

record errorResponse =
  er_status :: nat
  er_statusText :: string
  er_data :: jsval
  er_error :: "jsError option"

definition ErrorResponseImpl :: "nat \<Rightarrow> string \<Rightarrow> jsval \<Rightarrow> errorResponse" where
  "ErrorResponseImpl st stText d =
     \<lparr> er_status = st, er_statusText = stText, er_data = d, er_error = None \<rparr>"

text \<open>
  What a \<^verbatim>\<open>catch\<close> clause can receive, by the tests the source applies to it:
  \<^verbatim>\<open>isResponse\<close>, \<^verbatim>\<open>isRouteErrorResponse\<close>, \<^verbatim>\<open>instanceof Error\<close>, or none of them.
\<close>

datatype thrown =
    ThrownResponse response headersGuard
  | ThrownErrorResponse errorResponse
  | ThrownError jsError
  | ThrownOther jsval

subsection \<open>The constructors of responses, with what they throw\<close>

text \<open>
  \<^verbatim>\<open>new Response(body, init)\<close> and \<^verbatim>\<open>Response.json(data, init)\<close> initialise
  the response in the steps of the Fetch standard: a status outside \<^verbatim>\<open>200\<close> to
  \<^verbatim>\<open>599\<close> throws a \<^verbatim>\<open>RangeError\<close>; a status text that is not a reason phrase
  (tabs, spaces, visible ASCII and the bytes from \<^verbatim>\<open>0x80\<close>) throws a
  \<^verbatim>\<open>TypeError\<close>; a body with a null body status (\<^verbatim>\<open>101\<close>, \<^verbatim>\<open>103\<close>, \<^verbatim>\<open>204\<close>,
  \<^verbatim>\<open>205\<close>, \<^verbatim>\<open>304\<close>) throws a \<^verbatim>\<open>TypeError\<close>. The messages are the engine's;
  the model fixes one for each.
\<close>

definition null_body_status :: "nat \<Rightarrow> bool" where
  "null_body_status st = (st \<in> set [101, 103, 204, 205, 304])"

definition reason_phrase :: "string \<Rightarrow> bool" where
  "reason_phrase t =
     list_all
       (\<lambda>c. c = CHR 0x09 \<or> c = CHR 0x20
            \<or> (0x21 \<le> (of_char c :: nat) \<and> (of_char c :: nat) \<le> 0x7E)
            \<or> 0x80 \<le> (of_char c :: nat))
       t"

definition status_RangeError :: thrown where
  "status_RangeError =
     ThrownError (RangeError ''init.status must be in the range of 200 to 599, inclusive.'')"

definition statusText_TypeError :: thrown where
  "statusText_TypeError = ThrownError (TypeError ''Invalid statusText'')"

definition null_body_TypeError :: thrown where
  "null_body_TypeError = ThrownError (TypeError ''Response with null body status cannot have body'')"

definition initialize_response_error :: "body option \<Rightarrow> nat \<Rightarrow> string \<Rightarrow> thrown option" where
  "initialize_response_error b st stText =
     (if st < 200 \<or> 599 < st then Some status_RangeError
      else if \<not> reason_phrase stText then Some statusText_TypeError
      else if b \<noteq> None \<and> null_body_status st then Some null_body_TypeError
      else None)"

definition construct_Response ::
  "body option \<Rightarrow> nat \<Rightarrow> string \<Rightarrow> headers \<Rightarrow> thrown + response" where
  "construct_Response b st stText h =
     (case initialize_response_error b st stText of
        Some e \<Rightarrow> Inl e
      | None \<Rightarrow> Inr (new_Response b st stText h))"

text \<open>
  A JavaScript value of unknown type, by what \<^verbatim>\<open>JSON.stringify\<close> does with it:
  it gives the JSON text of some data (a string standing for itself), it gives
  \<^verbatim>\<open>undefined\<close> (for \<^verbatim>\<open>undefined\<close>, a function or a symbol), or it throws (for
  a \<^verbatim>\<open>BigInt\<close>, a cyclic object, a throwing \<^verbatim>\<open>toJSON\<close>).
\<close>

datatype unknown =
    JsonValue jsval
  | NoJson
  | JsonThrows thrown

definition not_serializable_TypeError :: thrown where
  "not_serializable_TypeError = ThrownError (TypeError ''Value is not JSON serializable'')"

text \<open>\<^verbatim>\<open>Response.json\<close> serialises its data first, and then initialises the response.\<close>

definition construct_Response_json ::
  "unknown \<Rightarrow> nat \<Rightarrow> string \<Rightarrow> headers \<Rightarrow> thrown + response" where
  "construct_Response_json d st stText h =
     (case d of
        JsonThrows e \<Rightarrow> Inl e
      | NoJson \<Rightarrow> Inl not_serializable_TypeError
      | JsonValue v \<Rightarrow>
          (case initialize_response_error (Some (BodyJson v)) st stText of
             Some e \<Rightarrow> Inl e
           | None \<Rightarrow> Inr (Response_json v st stText h)))"

text \<open>\<^verbatim>\<open>headers.set(name, value)\<close> on the headers of a response with a guard.\<close>

definition immutable_TypeError :: thrown where
  "immutable_TypeError = ThrownError (TypeError ''immutable'')"

definition guarded_set ::
  "headersGuard \<Rightarrow> string \<Rightarrow> string \<Rightarrow> headers \<Rightarrow> thrown + headers" where
  "guarded_set g name v h =
     (case g of
        GuardImmutable \<Rightarrow> Inl immutable_TypeError
      | GuardResponse \<Rightarrow> Inr (Headers_set name v h))"

subsection \<open>Requests, routes and the build\<close>

record url =
  pathname :: string
  searchParams :: "(string \<times> string) list"

record request =
  req_method :: string
  req_url :: url
  req_headers :: headers
  signal :: AbortSignal

definition searchParams_get :: "string \<Rightarrow> (string \<times> string) list \<Rightarrow> string option" where
  "searchParams_get k sp = map_of sp k"

definition searchParams_has :: "string \<Rightarrow> (string \<times> string) list \<Rightarrow> bool" where
  "searchParams_has k sp = (k \<in> set (map fst sp))"

definition searchParams_getAll :: "string \<Rightarrow> (string \<times> string) list \<Rightarrow> string list" where
  "searchParams_getAll k sp = map snd (filter (\<lambda>(k', _). k' = k) sp)"

type_synonym component = string

record routeModule =
  module_default :: "component option"
  module_ErrorBoundary :: "component option"

record serverRoute =
  route_id :: string
  route_module :: routeModule

type_synonym params = "string \<rightharpoonup> string"

record routeMatch =
  route :: serverRoute
  params :: params

record assetsManifest =
  version :: string
  asset_routes :: "(string \<times> jsval) list"

record futureConfig =
  unstable_middleware :: bool

record routeDiscoveryConfig =
  manifestPath :: "string option"

datatype loadContext =
    AppLoadContext jsval
  | RouterContextProvider jsval

text \<open>
  \<^verbatim>\<open>StaticHandlerContext\<close>: the result of the data pipeline. \<^verbatim>\<open>errors\<close> is
  \<^verbatim>\<open>null\<close> or an object from route ids to the values caught there.
\<close>

record staticHandlerContext =
  statusCode :: nat
  loaderData :: jsval
  actionData :: jsval
  errors :: "(string \<times> thrown) list option"

record serverHandoff =
  sh_basename :: "string option"
  sh_future :: futureConfig
  sh_routeDiscovery :: routeDiscoveryConfig
  sh_ssr :: bool
  sh_isSpaMode :: bool
  sh_criticalCss :: "string option"

record entryContext =
  ec_manifest :: assetsManifest
  ec_routeModules :: jsval
  ec_staticHandlerContext :: staticHandlerContext
  ec_criticalCss :: "string option"
  ec_serverHandoffString :: string
  ec_serverHandoffStream :: turboStream
  ec_renderMeta :: jsval
  ec_future :: futureConfig
  ec_ssr :: bool
  ec_routeDiscovery :: routeDiscoveryConfig
  ec_isSpaMode :: bool
  ec_serializeError :: "jsError \<Rightarrow> jsval"

subsection \<open>State: the collaborators' world and the trace of observable calls\<close>

text \<open>
  The collaborators (loaders, the render function, the hooks) are arbitrary
  user code: they read and change a world \<open>'w\<close>. The calls the claims speak
  about are recorded, in order, in a trace: every invocation of
  \<^verbatim>\<open>errorHandler\<close> with the \<^verbatim>\<open>params\<close> it is given, of the dev server's
  \<^verbatim>\<open>processRequestError\<close>, of the render function with its status code,
  headers and entry context, and of the \<^verbatim>\<open>handleDataRequest\<close> hook with the
  response and \<^verbatim>\<open>params\<close> it is given. \<^verbatim>\<open>errorHandler\<close> is the reporting sink:
  a call of it is an event and nothing more.
\<close>

datatype event =
    ErrorHandlerCall thrown params
  | ProcessRequestError thrown
  | RenderCall nat headers entryContext
  | HandleDataRequestCall response params

record 'w state =
  world :: 'w
  trace :: "event list"

definition emit :: "event \<Rightarrow> 'w state \<Rightarrow> 'w state" where
  "emit e s = s\<lparr> trace := trace s @ [e] \<rparr>"

text \<open>
  The entry module. The render function is handed a \<^verbatim>\<open>Headers\<close> object that
  it may change: beside what it returns or throws, it gives the header list it
  leaves in that object. The \<^verbatim>\<open>handleDataRequest\<close> hook may throw.
\<close>

record 'w entryModule =
  handleDocumentRequestFunction ::
    "request \<Rightarrow> nat \<Rightarrow> headers \<Rightarrow> entryContext \<Rightarrow> loadContext \<Rightarrow> 'w
       \<Rightarrow> ((thrown + response) \<times> headers) \<times> 'w"
  handleDataRequest ::
    "(response \<Rightarrow> loadContext \<Rightarrow> params \<Rightarrow> request \<Rightarrow> 'w
        \<Rightarrow> (thrown + response) \<times> 'w) option"
  streamTimeout :: "nat option"

record 'w serverBuild =
  entry :: "'w entryModule"
  build_routes :: jsval
  assets :: assetsManifest
  basename :: "string option"
  future :: futureConfig
  ssr :: bool
  prerender :: "string list"
  routeDiscovery :: routeDiscoveryConfig
  unstable_getCriticalCss :: "(string \<Rightarrow> 'w \<Rightarrow> (thrown + string option) \<times> 'w) option"

text \<open>
  \<^verbatim>\<open>staticHandler.query(request, {requestContext, unstable_respond})\<close> may call
  the \<^verbatim>\<open>unstable_respond\<close> callback it is handed, and go on from the response
  the callback gives. A run of \<^verbatim>\<open>query\<close> is therefore a tree: it ends
  (throwing, or returning a response or a context) in some world, or it calls
  the callback on a context in some world and continues from what the callback
  returned or threw and the world the callback left. \<^verbatim>\<open>queryRoute\<close> returns a
  response or a value of unknown type.
\<close>

datatype 'w queryRun =
    QueryReturn "thrown + response + staticHandlerContext" 'w
  | QueryRespond "response + staticHandlerContext" 'w
      "thrown + response \<Rightarrow> 'w \<Rightarrow> 'w queryRun"

record 'w staticHandler =
  dataRoutes :: jsval
  query :: "request \<Rightarrow> loadContext \<Rightarrow> bool \<Rightarrow> 'w \<Rightarrow> 'w queryRun"
  queryRoute ::
    "request \<Rightarrow> string \<Rightarrow> loadContext \<Rightarrow> bool \<Rightarrow> 'w
       \<Rightarrow> (thrown + response + unknown) \<times> 'w"

record 'w devServerHooks =
  hook_processRequestError :: bool
  hook_getCriticalCss :: "(string \<Rightarrow> 'w \<Rightarrow> (thrown + string option) \<times> 'w) option"

text \<open>
  What \<^verbatim>\<open>server.ts\<close> imports from other modules and from the platform, taken
  as parameters. \<^verbatim>\<open>matchServerRoutes\<close>, \<^verbatim>\<open>query\<close>, \<^verbatim>\<open>queryRoute\<close>, the render
  function, the hooks, the \<^verbatim>\<open>unstable_RouterContextProvider\<close> constructor, the
  body readers \<^verbatim>\<open>response.json()\<close> and \<^verbatim>\<open>response.text()\<close> and \<^verbatim>\<open>decodeURI\<close>
  (a \<^verbatim>\<open>URIError\<close> on a malformed escape) may throw; the other functions of the
  framework are taken to return. \<^verbatim>\<open>setPathname\<close> is what \<^verbatim>\<open>url.pathname\<close> reads
  after \<^verbatim>\<open>url.pathname = path\<close> on the URL of a request: the setter parses the
  path again, and so removes its dot segments. \<^verbatim>\<open>singleFetchAction\<close> and
  \<^verbatim>\<open>singleFetchLoaders\<close> are handed \<^verbatim>\<open>handleError\<close>: they give back the values
  they pass to it, in order, with their response.
\<close>

record 'w externals =
  stripBasename :: "string \<Rightarrow> string \<Rightarrow> string option"
  decodeURI :: "string \<Rightarrow> thrown + string"
  setPathname :: "string \<Rightarrow> string"
  String :: "thrown \<Rightarrow> string"
  response_json :: "response \<Rightarrow> thrown + jsval"
  response_text :: "response \<Rightarrow> thrown + string"
  isRedirectResponse :: "response \<Rightarrow> bool"
  getStaticContextFromError ::
    "jsval \<Rightarrow> staticHandlerContext \<Rightarrow> thrown \<Rightarrow> staticHandlerContext"
  createStaticHandler :: "jsval \<Rightarrow> string option \<Rightarrow> 'w staticHandler"
  new_RouterContextProvider :: "jsval option \<Rightarrow> thrown + loadContext"
  createEntryRouteModules :: "jsval \<Rightarrow> jsval"
  sanitizeErrors :: "(string \<times> thrown) list \<Rightarrow> ServerMode \<Rightarrow> (string \<times> thrown) list"
  serializeError :: "jsError \<Rightarrow> ServerMode \<Rightarrow> jsval"
  serializeErrors :: "(string \<times> thrown) list option \<Rightarrow> ServerMode \<Rightarrow> jsval"
  matchServerRoutes ::
    "serverRoute list \<Rightarrow> string \<Rightarrow> string option \<Rightarrow> thrown + routeMatch list option"
  createRoutes :: "jsval \<Rightarrow> serverRoute list"
  createStaticHandlerDataRoutes :: "jsval \<Rightarrow> futureConfig \<Rightarrow> jsval"
  createServerHandoffString :: "serverHandoff \<Rightarrow> string"
  getBuildTimeHeader :: "request \<Rightarrow> string \<Rightarrow> string option"
  getDevServerHooks :: "'w devServerHooks option"
  singleFetchAction ::
    "'w serverBuild \<Rightarrow> ServerMode \<Rightarrow> 'w staticHandler \<Rightarrow> request \<Rightarrow> url \<Rightarrow> loadContext
       \<Rightarrow> 'w \<Rightarrow> (thrown list \<times> response) \<times> 'w"
  singleFetchLoaders ::
    "'w serverBuild \<Rightarrow> ServerMode \<Rightarrow> 'w staticHandler \<Rightarrow> request \<Rightarrow> url \<Rightarrow> loadContext
       \<Rightarrow> 'w \<Rightarrow> (thrown list \<times> response) \<times> 'w"
  getSingleFetchRedirect :: "nat \<Rightarrow> headers \<Rightarrow> string option \<Rightarrow> jsval"
  SERVER_NO_BODY_STATUS_CODES :: "nat list"
  SINGLE_FETCH_REDIRECT_STATUS :: nat
  getDocumentHeaders :: "staticHandlerContext \<Rightarrow> 'w serverBuild \<Rightarrow> headers"
  getManifestPath :: "string option \<Rightarrow> string \<Rightarrow> string"

subsection \<open>Strings\<close>

definition startsWith :: "string \<Rightarrow> string \<Rightarrow> bool" where
  "startsWith s pre = (take (length pre) s = pre)"

definition endsWith :: "string \<Rightarrow> string \<Rightarrow> bool" where
  "endsWith s suf = (length suf \<le> length s \<and> drop (length s - length suf) s = suf)"

text \<open>\<^verbatim>\<open>s.split(c)\<close> for a one-character separator, and \<^verbatim>\<open>xs.join(sep)\<close>.\<close>

fun split_str :: "char \<Rightarrow> string \<Rightarrow> string list" where
  "split_str c [] = [[]]"
| "split_str c (x # xs) =
     (if x = c then [] # split_str c xs
      else (case split_str c xs of [] \<Rightarrow> [[x]] | w # ws \<Rightarrow> (x # w) # ws))"

fun join_str :: "string \<Rightarrow> string list \<Rightarrow> string" where
  "join_str sep [] = []"
| "join_str sep [x] = x"
| "join_str sep (x # y # ys) = x @ sep @ join_str sep (y # ys)"

text \<open>\<^verbatim>\<open>set.add(x)\<close> on a \<^verbatim>\<open>Set\<close>, which iterates in insertion order.\<close>

definition Set_add :: "'a \<Rightarrow> 'a list \<Rightarrow> 'a list" where
  "Set_add x xs = (if x \<in> set xs then xs else xs @ [x])"

subsection \<open>Error reporting and the last-resort response\<close>

text \<open>
  The closure \<^verbatim>\<open>handleError\<close> of \<^verbatim>\<open>requestHandler\<close> (lines 117 to 127). It
  reads the variable \<^verbatim>\<open>params\<close> when it is called, so the model passes the
  value \<^verbatim>\<open>params\<close> has at each call.
\<close>

definition handleError ::
  "'w externals \<Rightarrow> string option \<Rightarrow> params \<Rightarrow> thrown \<Rightarrow> 'w state \<Rightarrow> 'w state" where
  "handleError ext mode ps error s =
     (let s1 =
        (if mode = Some ''development'' then
           (case getDevServerHooks ext of
              Some hooks \<Rightarrow>
                if hook_processRequestError hooks then emit (ProcessRequestError error) s else s
            | None \<Rightarrow> s)
         else s)
      in emit (ErrorHandlerCall error ps) s1)"

definition returnLastResortErrorResponse ::
  "'w externals \<Rightarrow> thrown \<Rightarrow> ServerMode \<Rightarrow> response" where
  "returnLastResortErrorResponse ext error serverMode =
     (let message = ''Unexpected Server Error'';
          message' =
            (if serverMode \<noteq> Production
             then message @ [CHR 0x0A, CHR 0x0A] @ String ext error
             else message)
      in new_Response (Some (BodyString message')) 500 [] [(''Content-Type'', ''text/plain'')])"

definition errorResponseToJson ::
  "'w externals \<Rightarrow> errorResponse \<Rightarrow> ServerMode \<Rightarrow> thrown + response" where
  "errorResponseToJson ext er serverMode =
     construct_Response_json
       (JsonValue
          (serializeError ext
             (case er_error er of Some e \<Rightarrow> e | None \<Rightarrow> Error ''Unexpected Server Error'')
             serverMode))
       (er_status er) (er_statusText er) [(''X-Remix-Error'', ''yes'')]"

text \<open>
  \<^verbatim>\<open>/\bapplication\/json\b/.test(contentType)\<close>: the text occurs with no word
  character (letter, digit, underscore) right before it or right after it.
\<close>

definition is_word_char :: "char \<Rightarrow> bool" where
  "is_word_char c =
     (c \<in> set ''abcdefghijklmnopqrstuvwxyzABCDEFGHIJKLMNOPQRSTUVWXYZ0123456789_'')"

fun json_content_type_from :: "char option \<Rightarrow> string \<Rightarrow> bool" where
  "json_content_type_from prev [] = False"
| "json_content_type_from prev (c # cs) =
     ((take 16 (c # cs) = ''application/json''
        \<and> (case prev of None \<Rightarrow> True | Some p \<Rightarrow> \<not> is_word_char p)
        \<and> (case drop 16 (c # cs) of [] \<Rightarrow> True | n # _ \<Rightarrow> \<not> is_word_char n))
      \<or> json_content_type_from (Some c) cs)"

definition unwrapResponse :: "'w externals \<Rightarrow> response \<Rightarrow> thrown + jsval" where
  "unwrapResponse ext res =
     (let text = (case response_text ext res of Inl e \<Rightarrow> Inl e | Inr t \<Rightarrow> Inr (JStr t)) in
      case Headers_get ''Content-Type'' (headers res) of
        None \<Rightarrow> text
      | Some contentType \<Rightarrow>
          if contentType \<noteq> [] \<and> json_content_type_from None contentType
          then (case body res of None \<Rightarrow> Inr JNull | Some _ \<Rightarrow> response_json ext res)
          else text)"

subsection \<open>The manifest patch handler\<close>

text \<open>
  The candidates of one requested path (lines 370 to 377): the path, with a
  leading slash added if it has none, cut after each of its segments.
\<close>

definition partialPaths :: "string \<Rightarrow> string list" where
  "partialPaths path =
     (let path' = (if \<not> startsWith path ''/'' then ''/'' @ path else path);
          segments = drop 1 (split_str CHR ''/'' path')
      in map (\<lambda>i. ''/'' @ join_str ''/'' (take (i + 1) segments)) [0 ..< length segments])"

definition candidatePaths :: "string list \<Rightarrow> string list" where
  "candidatePaths ps = fold (\<lambda>path paths. fold Set_add (partialPaths path) paths) ps []"

text \<open>The loop over one path's matches (lines 383 to 389).\<close>

definition patchMatches ::
  "assetsManifest \<Rightarrow> routeMatch list \<Rightarrow> (string \<times> jsval) list \<Rightarrow> (string \<times> jsval) list" where
  "patchMatches a ms patches =
     fold (\<lambda>m acc.
             let routeId = route_id (route m) in
             case map_of (asset_routes a) routeId of
               Some r \<Rightarrow> AList.update routeId r acc
             | None \<Rightarrow> acc)
          ms patches"

text \<open>The loop over the candidate paths (lines 380 to 391); a throw of the matcher ends it.\<close>

fun patchPaths ::
  "'w externals \<Rightarrow> 'w serverBuild \<Rightarrow> serverRoute list \<Rightarrow> string list
     \<Rightarrow> (string \<times> jsval) list \<Rightarrow> thrown + (string \<times> jsval) list" where
  "patchPaths ext build routes [] patches = Inr patches"
| "patchPaths ext build routes (path # paths) patches =
     (case matchServerRoutes ext routes path (basename build) of
        Inl e \<Rightarrow> Inl e
      | Inr None \<Rightarrow> patchPaths ext build routes paths patches
      | Inr (Some ms) \<Rightarrow>
          patchPaths ext build routes paths (patchMatches (assets build) ms patches))"

definition handleManifestRequest ::
  "'w externals \<Rightarrow> 'w serverBuild \<Rightarrow> serverRoute list \<Rightarrow> url \<Rightarrow> thrown + response" where
  "handleManifestRequest ext build routes u =
     (if Some (version (assets build)) \<noteq> searchParams_get ''version'' (searchParams u) then
        Inr (new_Response None 204 [] [(''X-Remix-Reload-Document'', ''true'')])
      else if searchParams_has ''p'' (searchParams u) then
        (case patchPaths ext build routes
                (candidatePaths (searchParams_getAll ''p'' (searchParams u))) [] of
           Inl e \<Rightarrow> Inl e
         | Inr patches \<Rightarrow>
             Inr (Response_json (JObj patches) 200 []
                    [(''Cache-Control'', ''public, max-age=31536000, immutable'')]))
      else Inr (new_Response (Some (BodyString ''Invalid Request'')) 400 [] []))"

subsection \<open>The document handler\<close>

text \<open>
  Running \<^verbatim>\<open>staticHandler.query\<close> with the callback it is handed. A run that
  calls a callback it was not given goes on from the \<^verbatim>\<open>TypeError\<close> of calling
  \<^verbatim>\<open>undefined\<close>.
\<close>

definition not_a_function_TypeError :: thrown where
  "not_a_function_TypeError = ThrownError (TypeError ''unstable_respond is not a function'')"

primrec runQuery ::
  "(response + staticHandlerContext \<Rightarrow> 'w state \<Rightarrow> (thrown + response) \<times> 'w state) option
     \<Rightarrow> 'w queryRun \<Rightarrow> event list
     \<Rightarrow> (thrown + response + staticHandlerContext) \<times> 'w state" where
  "runQuery respond (QueryReturn out w) tr = (out, \<lparr> world = w, trace = tr \<rparr>)"
| "runQuery respond (QueryRespond arg w k) tr =
     (case respond of
        None \<Rightarrow> runQuery respond (k (Inl not_a_function_TypeError) w) tr
      | Some f \<Rightarrow>
          (case f arg \<lparr> world = w, trace = tr \<rparr> of
             (res, s') \<Rightarrow> runQuery respond (k res (world s')) (trace s')))"

text \<open>\<^verbatim>\<open>!isRouteErrorResponse(err) || err.error\<close> (line 478).\<close>

definition reportable :: "thrown \<Rightarrow> bool" where
  "reportable err =
     (case err of ThrownErrorResponse er \<Rightarrow> er_error er \<noteq> None | _ \<Rightarrow> True)"

text \<open>
  \<^verbatim>\<open>if (context.errors) context.errors = sanitizeErrors(context.errors, serverMode)\<close>
  (lines 475 and 482, and again lines 562 to 564).
\<close>

definition sanitizeContextErrors ::
  "'w externals \<Rightarrow> ServerMode \<Rightarrow> staticHandlerContext \<Rightarrow> staticHandlerContext" where
  "sanitizeContextErrors ext serverMode ctx =
     (case errors ctx of
        None \<Rightarrow> ctx
      | Some errs \<Rightarrow> ctx\<lparr> errors := Some (sanitizeErrors ext errs serverMode) \<rparr>)"

definition baseServerHandoff :: "'w serverBuild \<Rightarrow> bool \<Rightarrow> serverHandoff" where
  "baseServerHandoff build isSpaMode =
     \<lparr> sh_basename = basename build, sh_future = future build,
       sh_routeDiscovery = routeDiscovery build, sh_ssr = ssr build,
       sh_isSpaMode = isSpaMode, sh_criticalCss = None \<rparr>"

text \<open>The entry context of the first render pass (lines 488 to 521).\<close>

definition firstEntryContext ::
  "'w externals \<Rightarrow> ServerMode \<Rightarrow> 'w serverBuild \<Rightarrow> request \<Rightarrow> string option
     \<Rightarrow> staticHandlerContext \<Rightarrow> bool \<Rightarrow> entryContext" where
  "firstEntryContext ext serverMode build req criticalCss ctx isSpaMode =
     \<lparr> ec_manifest = assets build,
       ec_routeModules = createEntryRouteModules ext (build_routes build),
       ec_staticHandlerContext = ctx,
       ec_criticalCss = criticalCss,
       ec_serverHandoffString =
         createServerHandoffString ext
           ((baseServerHandoff build isSpaMode)\<lparr> sh_criticalCss := criticalCss \<rparr>),
       ec_serverHandoffStream =
         encodeViaTurboStream
           (HandoffState (loaderData ctx) (actionData ctx)
              (serializeErrors ext (errors ctx) serverMode))
           (signal req) (streamTimeout (entry build)) serverMode,
       ec_renderMeta = JObj [],
       ec_future = future build,
       ec_ssr = ssr build,
       ec_routeDiscovery = routeDiscovery build,
       ec_isSpaMode = isSpaMode,
       ec_serializeError = (\<lambda>err. serializeError ext err serverMode) \<rparr>"

text \<open>
  The value handed to \<^verbatim>\<open>getStaticContextFromError\<close> (lines 537 to 552): a
  thrown response is unwrapped into an \<^verbatim>\<open>ErrorResponseImpl\<close>, and kept as it
  is when unwrapping throws.
\<close>

definition errorForSecondRender :: "'w externals \<Rightarrow> thrown \<Rightarrow> thrown" where
  "errorForSecondRender ext error =
     (case error of
        ThrownResponse res g \<Rightarrow>
          (case unwrapResponse ext res of
             Inr d \<Rightarrow> ThrownErrorResponse (ErrorResponseImpl (status res) (statusText res) d)
           | Inl e \<Rightarrow> error)
      | _ \<Rightarrow> error)"

text \<open>The context of the second render pass (lines 554 to 564).\<close>

definition secondContext ::
  "'w externals \<Rightarrow> ServerMode \<Rightarrow> 'w staticHandler \<Rightarrow> staticHandlerContext \<Rightarrow> thrown
     \<Rightarrow> staticHandlerContext" where
  "secondContext ext serverMode sh ctx error =
     sanitizeContextErrors ext serverMode
       (getStaticContextFromError ext (dataRoutes sh) ctx (errorForSecondRender ext error))"

text \<open>The entry context of the second render pass (lines 570 to 586).\<close>

definition secondEntryContext ::
  "'w externals \<Rightarrow> ServerMode \<Rightarrow> 'w serverBuild \<Rightarrow> request \<Rightarrow> entryContext
     \<Rightarrow> staticHandlerContext \<Rightarrow> bool \<Rightarrow> entryContext" where
  "secondEntryContext ext serverMode build req entryContext ctx isSpaMode =
     entryContext
       \<lparr> ec_staticHandlerContext := ctx,
         ec_serverHandoffString := createServerHandoffString ext (baseServerHandoff build isSpaMode),
         ec_serverHandoffStream :=
           encodeViaTurboStream
             (HandoffState (loaderData ctx) (actionData ctx)
                (serializeErrors ext (errors ctx) serverMode))
             (signal req) (streamTimeout (entry build)) serverMode,
         ec_renderMeta := JObj [] \<rparr>"

text \<open>
  One call of the render function, recorded in the trace with its arguments as
  they are when it is called. It gives what the function returned or threw and
  the header list the function left in the \<^verbatim>\<open>Headers\<close> object.
\<close>

definition callRender ::
  "'w serverBuild \<Rightarrow> request \<Rightarrow> nat \<Rightarrow> headers \<Rightarrow> entryContext \<Rightarrow> loadContext \<Rightarrow> 'w state
     \<Rightarrow> ((thrown + response) \<times> headers) \<times> 'w state" where
  "callRender build req st hdrs entryContext loadContext s =
     (case handleDocumentRequestFunction (entry build) req st hdrs entryContext loadContext
             (world s) of
        (r, w') \<Rightarrow> (r, \<lparr> world = w', trace = trace s @ [RenderCall st hdrs entryContext] \<rparr>))"

text \<open>
  \<^verbatim>\<open>renderHtml\<close>, the function nested in \<^verbatim>\<open>handleDocumentRequest\<close> (lines 462 to
  603). The response without a body (line 471) is constructed from a status
  code of \<^verbatim>\<open>SERVER_NO_BODY_STATUS_CODES\<close>, and the constructor throws where that
  code is below \<^verbatim>\<open>200\<close>. Both calls of the render function are handed the one
  \<^verbatim>\<open>Headers\<close> object \<^verbatim>\<open>headers\<close>: the second call finds in it what the first
  call left.
\<close>

definition renderHtml ::
  "'w externals \<Rightarrow> ServerMode \<Rightarrow> 'w serverBuild \<Rightarrow> 'w staticHandler \<Rightarrow> request
     \<Rightarrow> loadContext \<Rightarrow> (thrown \<Rightarrow> 'w state \<Rightarrow> 'w state) \<Rightarrow> string option
     \<Rightarrow> response + staticHandlerContext \<Rightarrow> bool \<Rightarrow> 'w state
     \<Rightarrow> (thrown + response) \<times> 'w state" where
  "renderHtml ext serverMode build sh req loadContext handleErr criticalCss arg isSpaMode s =
     (case arg of
        Inl res \<Rightarrow> (Inr res, s)
      | Inr ctx0 \<Rightarrow>
          let hdrs = getDocumentHeaders ext ctx0 build in
          if statusCode ctx0 \<in> set (SERVER_NO_BODY_STATUS_CODES ext) then
            (construct_Response None (statusCode ctx0) [] (Headers_copy hdrs), s)
          else
            let s1 =
                  (case errors ctx0 of
                     None \<Rightarrow> s
                   | Some errs \<Rightarrow>
                       fold (\<lambda>err st. if reportable err then handleErr err st else st)
                         (map snd errs) s);
                ctx1 = sanitizeContextErrors ext serverMode ctx0;
                entryContext =
                  firstEntryContext ext serverMode build req criticalCss ctx1 isSpaMode
            in (case callRender build req (statusCode ctx1) hdrs entryContext loadContext s1 of
                 ((Inr res, hdrs1), s2) \<Rightarrow> (Inr res, s2)
               | ((Inl error, hdrs1), s2) \<Rightarrow>
                   let s3 = handleErr error s2;
                       ctx2 = secondContext ext serverMode sh ctx1 error;
                       entryContext' =
                         secondEntryContext ext serverMode build req entryContext ctx2 isSpaMode
                   in (case callRender build req (statusCode ctx2) hdrs1 entryContext' loadContext
                              s3 of
                         ((Inr res, hdrs2), s4) \<Rightarrow> (Inr res, s4)
                       | ((Inl error', hdrs2), s4) \<Rightarrow>
                           (Inr (returnLastResortErrorResponse ext error' serverMode),
                            handleErr error' s4))))"

text \<open>
  \<^verbatim>\<open>handleDocumentRequest\<close> (lines 446 to 460). The \<^verbatim>\<open>try\<close> block awaits the
  query, and the \<^verbatim>\<open>catch\<close> clause answers what the query throws.
  \<^verbatim>\<open>return renderHtml(response, isSpaMode)\<close> does not await: what that call of
  \<^verbatim>\<open>renderHtml\<close> throws is not caught here. What \<^verbatim>\<open>renderHtml\<close> throws as the
  callback \<^verbatim>\<open>unstable_respond\<close> goes to the query.
\<close>

definition handleDocumentRequest ::
  "'w externals \<Rightarrow> ServerMode \<Rightarrow> 'w serverBuild \<Rightarrow> 'w staticHandler \<Rightarrow> request
     \<Rightarrow> loadContext \<Rightarrow> (thrown \<Rightarrow> 'w state \<Rightarrow> 'w state) \<Rightarrow> bool \<Rightarrow> string option
     \<Rightarrow> 'w state \<Rightarrow> (thrown + response) \<times> 'w state" where
  "handleDocumentRequest ext serverMode build sh req loadContext handleErr isSpaMode criticalCss s =
     (let render = (\<lambda>ctx. renderHtml ext serverMode build sh req loadContext handleErr
                           criticalCss ctx isSpaMode)
      in case runQuery
                (if unstable_middleware (future build) then Some render else None)
                (query sh req loadContext (unstable_middleware (future build)) (world s))
                (trace s) of
           (Inl error, s1) \<Rightarrow> (Inr (new_Response None 500 [] []), handleErr error s1)
         | (Inr (Inl res), s1) \<Rightarrow> (Inr res, s1)
         | (Inr (Inr ctx), s1) \<Rightarrow> render (Inr ctx) s1)"

subsection \<open>The resource handler\<close>

text \<open>
  The \<^verbatim>\<open>catch\<close> clause of \<^verbatim>\<open>handleResourceRequest\<close> (lines 636 to 664). What
  \<^verbatim>\<open>error.headers.set\<close> or \<^verbatim>\<open>errorResponseToJson\<close> throws there is thrown by
  \<^verbatim>\<open>handleResourceRequest\<close>; the route error is reported before it is
  serialised.
\<close>

definition handleResourceRequest_catch ::
  "'w externals \<Rightarrow> ServerMode \<Rightarrow> (thrown \<Rightarrow> 'w state \<Rightarrow> 'w state) \<Rightarrow> thrown \<Rightarrow> 'w state
     \<Rightarrow> (thrown + response) \<times> 'w state" where
  "handleResourceRequest_catch ext serverMode handleErr error s =
     (case error of
        ThrownResponse res g \<Rightarrow>
          (case guarded_set g ''X-Remix-Catch'' ''yes'' (headers res) of
             Inl e \<Rightarrow> (Inl e, s)
           | Inr h \<Rightarrow> (Inr (res\<lparr> headers := h \<rparr>), s))
      | ThrownErrorResponse er \<Rightarrow>
          (errorResponseToJson ext er serverMode, handleErr error s)
      | ThrownError e \<Rightarrow>
          if error_message e = ''Expected a response from queryRoute'' then
            let newError =
                  ThrownError
                    (Error ''Expected a Response to be returned from resource route handler'')
            in (Inr (returnLastResortErrorResponse ext newError serverMode), handleErr newError s)
          else (Inr (returnLastResortErrorResponse ext error serverMode), handleErr error s)
      | ThrownOther v \<Rightarrow>
          (Inr (returnLastResortErrorResponse ext error serverMode), handleErr error s))"

text \<open>
  \<^verbatim>\<open>handleResourceRequest\<close> (lines 615 to 635). \<^verbatim>\<open>Response.json(response)\<close> is
  inside the \<^verbatim>\<open>try\<close> block: what it throws on a value that does not serialise
  goes to the \<^verbatim>\<open>catch\<close> clause.
\<close>

definition handleResourceRequest ::
  "'w externals \<Rightarrow> ServerMode \<Rightarrow> 'w serverBuild \<Rightarrow> 'w staticHandler \<Rightarrow> string \<Rightarrow> request
     \<Rightarrow> loadContext \<Rightarrow> (thrown \<Rightarrow> 'w state \<Rightarrow> 'w state) \<Rightarrow> 'w state
     \<Rightarrow> (thrown + response) \<times> 'w state" where
  "handleResourceRequest ext serverMode build sh routeId req loadContext handleErr s =
     (case queryRoute sh req routeId loadContext (unstable_middleware (future build)) (world s) of
        (r, w') \<Rightarrow>
          let s1 = s\<lparr> world := w' \<rparr> in
          (case r of
             Inl error \<Rightarrow> handleResourceRequest_catch ext serverMode handleErr error s1
           | Inr (Inl res) \<Rightarrow> (Inr res, s1)
           | Inr (Inr (JsonValue (JStr str))) \<Rightarrow>
               (Inr (new_Response (Some (BodyString str)) 200 [] []), s1)
           | Inr (Inr v) \<Rightarrow>
               (case construct_Response_json v 200 [] [] of
                  Inr res \<Rightarrow> (Inr res, s1)
                | Inl error \<Rightarrow> handleResourceRequest_catch ext serverMode handleErr error s1)))"

subsection \<open>The request handler\<close>

text \<open>
  How a part of the body of \<^verbatim>\<open>requestHandler\<close> ends: by throwing (the promise
  rejects), by a \<^verbatim>\<open>return\<close> statement, or normally with a value.
\<close>

datatype 'a completion = Throw thrown | Return response | Normal 'a

text \<open>Truthiness, for \<^verbatim>\<open>initialContext || {}\<close>.\<close>

definition truthy :: "jsval \<Rightarrow> bool" where
  "truthy v =
     (case v of
        JNull \<Rightarrow> False
      | JBool b \<Rightarrow> b
      | JNum n \<Rightarrow> n \<noteq> 0
      | JStr t \<Rightarrow> t \<noteq> []
      | _ \<Rightarrow> True)"

definition undefined_property_TypeError :: "string \<Rightarrow> thrown" where
  "undefined_property_TypeError name =
     ThrownError
       (Error (''Cannot read properties of undefined (reading '' @ [CHR 0x27] @ name
                 @ [CHR 0x27] @ '')''))"

text \<open>
  The load context (lines 129 to 150). \<^verbatim>\<open>initialContext == null\<close> holds of
  \<^verbatim>\<open>undefined\<close> and of \<^verbatim>\<open>null\<close>.
\<close>

definition createLoadContext ::
  "'w externals \<Rightarrow> 'w serverBuild \<Rightarrow> string option \<Rightarrow> ServerMode \<Rightarrow> jsval option
     \<Rightarrow> 'w state \<Rightarrow> loadContext completion \<times> 'w state" where
  "createLoadContext ext build mode serverMode initialContext s =
     (if unstable_middleware (future build) then
        (if initialContext = None \<or> initialContext = Some JNull then
           (case new_RouterContextProvider ext None of
              Inl e \<Rightarrow> (Throw e, s)
            | Inr loadContext \<Rightarrow> (Normal loadContext, s))
         else
           (case new_RouterContextProvider ext initialContext of
              Inr loadContext \<Rightarrow> (Normal loadContext, s)
            | Inl e \<Rightarrow>
                let error =
                      ThrownError
                        (Error
                           (''Unable to create initial `unstable_RouterContextProvider` instance. ''
                            @ ''Please confirm you are returning an instance of ''
                            @ ''`Map<unstable_routerContext, unknown>` from your `getLoadContext` function.''
                            @ [CHR 0x0A, CHR 0x0A] @ ''Error: '' @ String ext e))
                in (Return (returnLastResortErrorResponse ext error serverMode),
                    handleError ext mode Map.empty error s)))
      else
        (Normal
           (AppLoadContext
              (case initialContext of
                 Some v \<Rightarrow> if truthy v then v else JObj []
               | None \<Rightarrow> JObj [])),
         s))"

definition normalizedBasename :: "'w serverBuild \<Rightarrow> string" where
  "normalizedBasename build =
     (case basename build of None \<Rightarrow> ''/'' | Some b \<Rightarrow> if b = [] then ''/'' else b)"

text \<open>
  The normalized path, in the two steps of the source: the \<^verbatim>\<open>.data\<close> step
  (lines 154 to 160), where \<^verbatim>\<open>replace(/\.data$/, "")\<close> on a path that ends in
  \<^verbatim>\<open>.data\<close> drops its last five characters, and the trailing slash step
  (lines 162 to 167), where \<^verbatim>\<open>slice(0, -1)\<close> drops the last character.
\<close>

definition withoutDataSuffix :: "'w externals \<Rightarrow> 'w serverBuild \<Rightarrow> url \<Rightarrow> string" where
  "withoutDataSuffix ext build u =
     (let normalizedPath = pathname u in
      if stripBasename ext normalizedPath (normalizedBasename build) = Some ''/_root.data''
      then normalizedBasename build
      else if endsWith normalizedPath ''.data''
      then take (length normalizedPath - 5) normalizedPath
      else normalizedPath)"

definition normalizePath :: "'w externals \<Rightarrow> 'w serverBuild \<Rightarrow> url \<Rightarrow> string" where
  "normalizePath ext build u =
     (let normalizedPath = withoutDataSuffix ext build u in
      if stripBasename ext normalizedPath (normalizedBasename build) \<noteq> Some ''/''
         \<and> endsWith normalizedPath ''/''
      then butlast normalizedPath
      else normalizedPath)"

text \<open>
  SPA mode (lines 169 to 210). With \<^verbatim>\<open>ssr: false\<close> the path is decoded before
  the prerender list is looked at, so what \<^verbatim>\<open>decodeURI\<close> throws is thrown
  whatever the list holds. The \<^verbatim>\<open>404\<close> is reported by a direct call of
  \<^verbatim>\<open>errorHandler\<close>, when \<^verbatim>\<open>params\<close> is still empty.
\<close>

definition spaMode ::
  "'w externals \<Rightarrow> 'w serverBuild \<Rightarrow> request \<Rightarrow> string \<Rightarrow> 'w state
     \<Rightarrow> bool completion \<times> 'w state" where
  "spaMode ext build req normalizedPath s =
     (let isSpaMode = (getBuildTimeHeader ext req ''X-React-Router-SPA-Mode'' = Some ''yes'') in
      if \<not> ssr build then
        (case decodeURI ext normalizedPath of
           Inl e \<Rightarrow> (Throw e, s)
         | Inr decodedPath \<Rightarrow>
             if length (prerender build) = 0 then (Normal True, s)
             else if decodedPath \<notin> set (prerender build)
                     \<and> decodedPath @ ''/'' \<notin> set (prerender build) then
               if endsWith (pathname (req_url req)) ''.data'' then
                 (Return (new_Response (Some (BodyString ''Not Found'')) 404 ''Not Found'' []),
                  emit
                    (ErrorHandlerCall
                       (ThrownErrorResponse
                          (ErrorResponseImpl 404 ''Not Found''
                             (JStr (''Refusing to SSR the path `'' @ decodedPath
                                    @ ''` because `ssr:false` is set and the path is not included in the `prerender` config, so in production the path will be a 404.''))))
                       Map.empty)
                    s)
               else (Normal True, s)
             else (Normal isSpaMode, s))
      else (Normal isSpaMode, s))"

subsection \<open>The strategies\<close>

definition handleSingleFetchRequest ::
  "'w externals \<Rightarrow> ServerMode \<Rightarrow> 'w serverBuild \<Rightarrow> 'w staticHandler \<Rightarrow> request \<Rightarrow> url
     \<Rightarrow> loadContext \<Rightarrow> (thrown \<Rightarrow> 'w state \<Rightarrow> 'w state) \<Rightarrow> 'w state
     \<Rightarrow> response \<times> 'w state" where
  "handleSingleFetchRequest ext serverMode build sh req handlerUrl loadContext handleErr s =
     (case (if req_method req \<noteq> ''GET''
            then singleFetchAction ext build serverMode sh req handlerUrl loadContext (world s)
            else singleFetchLoaders ext build serverMode sh req handlerUrl loadContext (world s)) of
        ((reported, res), w') \<Rightarrow> (res, fold handleErr reported (s\<lparr> world := w' \<rparr>)))"

text \<open>
  The repackaging of a redirect (lines 261 to 287). \<^verbatim>\<open>new Headers\<close> copies the
  headers of the redirect, and the constructor of the response copies the
  \<^verbatim>\<open>Headers\<close> object it is handed.
\<close>

definition singleFetchRedirect ::
  "'w externals \<Rightarrow> ServerMode \<Rightarrow> 'w serverBuild \<Rightarrow> request \<Rightarrow> response \<Rightarrow> thrown + response" where
  "singleFetchRedirect ext serverMode build req res =
     (let result = getSingleFetchRedirect ext (status res) (headers res) (basename build);
          result' =
            (if req_method req = ''GET'' then UnderRedirectSymbol result
             else RedirectResult result);
          hdrs = Headers_set ''Content-Type'' ''text/x-script'' (Headers_copy (headers res))
      in construct_Response
           (Some (BodyStream
                    (encodeViaTurboStream result' (signal req) (streamTimeout (entry build))
                       serverMode)))
           (SINGLE_FETCH_REDIRECT_STATUS ext) [] (Headers_copy hdrs))"

text \<open>
  The branch of a path that ends in \<^verbatim>\<open>.data\<close> (lines 234 to 289). The routes are
  matched again, on the path that \<^verbatim>\<open>handlerUrl.pathname\<close> reads after it was set
  to the normalized path; the hook is handed the \<^verbatim>\<open>params\<close> of the first of
  these matches.
\<close>

definition singleFetchStrategy ::
  "'w externals \<Rightarrow> ServerMode \<Rightarrow> 'w serverBuild \<Rightarrow> serverRoute list \<Rightarrow> 'w staticHandler
     \<Rightarrow> request \<Rightarrow> loadContext \<Rightarrow> (thrown \<Rightarrow> 'w state \<Rightarrow> 'w state) \<Rightarrow> string
     \<Rightarrow> 'w state \<Rightarrow> response completion \<times> 'w state" where
  "singleFetchStrategy ext serverMode build routes sh req loadContext handleErr normalizedPath s =
     (let handlerUrl = (req_url req)\<lparr> pathname := setPathname ext normalizedPath \<rparr> in
      case matchServerRoutes ext routes (pathname handlerUrl) (basename build) of
        Inl e \<Rightarrow> (Throw e, s)
      | Inr singleFetchMatches \<Rightarrow>
          (case handleSingleFetchRequest ext serverMode build sh req handlerUrl loadContext
                  handleErr s of
             (res, s1) \<Rightarrow>
               (case handleDataRequest (entry build) of
                  None \<Rightarrow> (Normal res, s1)
                | Some hook \<Rightarrow>
                    (case singleFetchMatches of
                       Some [] \<Rightarrow> (Throw (undefined_property_TypeError ''params''), s1)
                     | _ \<Rightarrow>
                         let hookParams =
                               (case singleFetchMatches of
                                  Some (m # _) \<Rightarrow> params m
                                | _ \<Rightarrow> Map.empty)
                         in (case hook res loadContext hookParams req (world s1) of
                               (r, w') \<Rightarrow>
                                 let s2 = \<lparr> world = w',
                                            trace = trace s1 @ [HandleDataRequestCall res hookParams] \<rparr>
                                 in (case r of
                                       Inl e \<Rightarrow> (Throw e, s2)
                                     | Inr res' \<Rightarrow>
                                         if isRedirectResponse ext res' then
                                           (case singleFetchRedirect ext serverMode build req res' of
                                              Inl e \<Rightarrow> (Throw e, s2)
                                            | Inr redirect \<Rightarrow> (Return redirect, s2))
                                         else (Normal res', s2)))))))"

text \<open>The document branch (lines 306 to 327).\<close>

definition documentStrategy ::
  "'w externals \<Rightarrow> string option \<Rightarrow> ServerMode \<Rightarrow> 'w serverBuild \<Rightarrow> 'w staticHandler
     \<Rightarrow> request \<Rightarrow> loadContext \<Rightarrow> (thrown \<Rightarrow> 'w state \<Rightarrow> 'w state) \<Rightarrow> bool
     \<Rightarrow> 'w state \<Rightarrow> (thrown + response) \<times> 'w state" where
  "documentStrategy ext mode serverMode build sh req loadContext handleErr isSpaMode s =
     (let getter =
            (case unstable_getCriticalCss build of
               Some f \<Rightarrow> Some f
             | None \<Rightarrow>
                 if mode = Some ''development'' then
                   (case getDevServerHooks ext of
                      Some hooks \<Rightarrow> hook_getCriticalCss hooks
                    | None \<Rightarrow> None)
                 else None)
      in case getter of
           None \<Rightarrow>
             handleDocumentRequest ext serverMode build sh req loadContext handleErr isSpaMode
               None s
         | Some f \<Rightarrow>
             (case f (pathname (req_url req)) (world s) of
                (Inl e, w') \<Rightarrow> (Inl e, s\<lparr> world := w' \<rparr>)
              | (Inr criticalCss, w') \<Rightarrow>
                  handleDocumentRequest ext serverMode build sh req loadContext handleErr
                    isSpaMode criticalCss (s\<lparr> world := w' \<rparr>)))"

text \<open>What a handler returned or threw, as the completion of the part that awaited it.\<close>

definition awaited :: "(thrown + response) \<times> 'w state \<Rightarrow> response completion \<times> 'w state" where
  "awaited p = (case p of (Inl e, s) \<Rightarrow> (Throw e, s) | (Inr res, s) \<Rightarrow> (Normal res, s))"

text \<open>
  Matching and the choice of a strategy (lines 227 to 328). \<^verbatim>\<open>params\<close> is
  filled from the first match before any strategy runs, so \<^verbatim>\<open>handleError\<close>
  reports with it from here on.
\<close>

definition produceResponse ::
  "'w externals \<Rightarrow> string option \<Rightarrow> ServerMode \<Rightarrow> 'w serverBuild \<Rightarrow> serverRoute list
     \<Rightarrow> 'w staticHandler \<Rightarrow> request \<Rightarrow> loadContext \<Rightarrow> string \<Rightarrow> bool \<Rightarrow> 'w state
     \<Rightarrow> response completion \<times> 'w state" where
  "produceResponse ext mode serverMode build routes sh req loadContext normalizedPath isSpaMode s =
     (case matchServerRoutes ext routes normalizedPath (basename build) of
        Inl e \<Rightarrow> (Throw e, s)
      | Inr matches \<Rightarrow>
          let ps = (case matches of Some (m # _) \<Rightarrow> Map.empty ++ params m | _ \<Rightarrow> Map.empty);
              handleErr = handleError ext mode ps;
              document =
                (\<lambda>_. awaited
                        (documentStrategy ext mode serverMode build sh req loadContext handleErr
                           isSpaMode s))
          in if endsWith (pathname (req_url req)) ''.data'' then
               singleFetchStrategy ext serverMode build routes sh req loadContext handleErr
                 normalizedPath s
             else if isSpaMode then document ()
             else
               (case matches of
                  None \<Rightarrow> document ()
                | Some [] \<Rightarrow> (Throw (undefined_property_TypeError ''route''), s)
                | Some ms \<Rightarrow>
                    if module_default (route_module (route (last ms))) = None
                       \<and> module_ErrorBoundary (route_module (route (last ms))) = None
                    then
                      awaited
                        (handleResourceRequest ext serverMode build sh
                           (route_id (route (last ms))) req loadContext handleErr s)
                    else document ()))"

text \<open>The body of \<^verbatim>\<open>requestHandler\<close> up to the assignment of \<^verbatim>\<open>response\<close> (lines 98 to 328).\<close>

definition selectResponse ::
  "'w externals \<Rightarrow> 'w serverBuild \<Rightarrow> string option \<Rightarrow> request \<Rightarrow> jsval option \<Rightarrow> 'w state
     \<Rightarrow> response completion \<times> 'w state" where
  "selectResponse ext build mode req initialContext s =
     (let routes = createRoutes ext (build_routes build);
          dataRoutes' = createStaticHandlerDataRoutes ext (build_routes build) (future build);
          serverMode = derive_serverMode mode;
          sh = createStaticHandler ext dataRoutes' (basename build)
      in case createLoadContext ext build mode serverMode initialContext s of
           (Throw e, s1) \<Rightarrow> (Throw e, s1)
         | (Return r, s1) \<Rightarrow> (Return r, s1)
         | (Normal loadContext, s1) \<Rightarrow>
             let normalizedPath = normalizePath ext build (req_url req) in
             (case spaMode ext build req normalizedPath s1 of
                (Throw e, s2) \<Rightarrow> (Throw e, s2)
              | (Return r, s2) \<Rightarrow> (Return r, s2)
              | (Normal isSpaMode, s2) \<Rightarrow>
                  if pathname (req_url req)
                       = getManifestPath ext (manifestPath (routeDiscovery build))
                           (normalizedBasename build)
                  then
                    (case handleManifestRequest ext build routes (req_url req) of
                       Inr res \<Rightarrow> (Return res, s2)
                     | Inl e \<Rightarrow>
                         (Return (new_Response (Some (BodyString ''Unknown Server Error'')) 500 [] []),
                          handleError ext mode Map.empty e s2))
                  else
                    produceResponse ext mode serverMode build routes sh req loadContext
                      normalizedPath isSpaMode s2))"

text \<open>
  \<^verbatim>\<open>requestHandler\<close>: the body, then the pass for \<^verbatim>\<open>HEAD\<close> (lines 330 to 338),
  which constructs a response from the status, the status text and the
  \<^verbatim>\<open>Headers\<close> object of the response the strategy gave. A \<^verbatim>\<open>return\<close> statement
  of the body ends the handler before this pass.
\<close>

definition requestHandler ::
  "'w externals \<Rightarrow> 'w serverBuild \<Rightarrow> string option \<Rightarrow> request \<Rightarrow> jsval option \<Rightarrow> 'w state
     \<Rightarrow> (thrown + response) \<times> 'w state" where
  "requestHandler ext build mode req initialContext s =
     (case selectResponse ext build mode req initialContext s of
        (Throw e, s') \<Rightarrow> (Inl e, s')
      | (Return r, s') \<Rightarrow> (Inr r, s')
      | (Normal res, s') \<Rightarrow>
          if req_method req = ''HEAD'' then
            (construct_Response None (status res) (statusText res) (Headers_copy (headers res)), s')
          else (Inr res, s'))"

section \<open>Example instances\<close>

text \<open>
  Concrete collaborators, builds and requests, on which the theorems below are
  evaluated. The world is a counter of the calls of the render function.
\<close>

text \<open>\<^verbatim>\<open>stripBasename\<close> as \<^verbatim>\<open>lib/router/utils.ts\<close> has it.\<close>

definition ex_stripBasename :: "string \<Rightarrow> string \<Rightarrow> string option" where
  "ex_stripBasename path base =
     (if base = ''/'' then Some path
      else if \<not> startsWith (map lower_char path) (map lower_char base) then None
      else
        let startIndex = (if endsWith base ''/'' then length base - 1 else length base) in
        if startIndex < length path \<and> path ! startIndex \<noteq> CHR ''/'' then None
        else Some (if drop startIndex path = [] then ''/'' else drop startIndex path))"

text \<open>
  \<^verbatim>\<open>decodeURI\<close> as ECMAScript has it, on strings as their UTF-8 bytes. Every
  \<^verbatim>\<open>%\<close> must start an escape of two hexadecimal digits; an escape below
  \<^verbatim>\<open>0x80\<close> is decoded unless it stands for a reserved character; the escapes
  from \<^verbatim>\<open>0x80\<close> must spell the UTF-8 encoding of one code point, and are
  replaced by these bytes. Anything else is a \<^verbatim>\<open>URIError\<close>.
\<close>

definition hex_digit :: "char \<Rightarrow> nat option" where
  "hex_digit c =
     map_of (zip ''0123456789abcdefABCDEF''
               [0, 1, 2, 3, 4, 5, 6, 7, 8, 9, 10, 11, 12, 13, 14, 15, 10, 11, 12, 13, 14, 15]) c"

definition hex_octet :: "char \<Rightarrow> char \<Rightarrow> nat option" where
  "hex_octet a b =
     (case (hex_digit a, hex_digit b) of
        (Some x, Some y) \<Rightarrow> Some (16 * x + y)
      | _ \<Rightarrow> None)"

datatype uriToken = Literal char | Escape nat char char

fun uriTokens :: "string \<Rightarrow> uriToken list option" where
  "uriTokens [] = Some []"
| "uriTokens (c # cs) =
     (if c = CHR ''%'' then
        (case cs of
           a # b # rest \<Rightarrow>
             (case hex_octet a b of
                Some octet \<Rightarrow> map_option ((#) (Escape octet a b)) (uriTokens rest)
              | None \<Rightarrow> None)
         | _ \<Rightarrow> None)
      else map_option ((#) (Literal c)) (uriTokens cs))"

definition continuation :: "nat \<Rightarrow> bool" where
  "continuation b = (0x80 \<le> b \<and> b \<le> 0xBF)"

text \<open>The well-formed UTF-8 byte sequences of two, three and four bytes.\<close>

definition utf8_2 :: "nat \<Rightarrow> nat \<Rightarrow> bool" where
  "utf8_2 a b = (0xC2 \<le> a \<and> a \<le> 0xDF \<and> continuation b)"

definition utf8_3 :: "nat \<Rightarrow> nat \<Rightarrow> nat \<Rightarrow> bool" where
  "utf8_3 a b c =
     (0xE0 \<le> a \<and> a \<le> 0xEF \<and> continuation b \<and> continuation c
      \<and> (a = 0xE0 \<longrightarrow> 0xA0 \<le> b) \<and> (a = 0xED \<longrightarrow> b \<le> 0x9F))"

definition utf8_4 :: "nat \<Rightarrow> nat \<Rightarrow> nat \<Rightarrow> nat \<Rightarrow> bool" where
  "utf8_4 a b c d =
     (0xF0 \<le> a \<and> a \<le> 0xF4 \<and> continuation b \<and> continuation c \<and> continuation d
      \<and> (a = 0xF0 \<longrightarrow> 0x90 \<le> b) \<and> (a = 0xF4 \<longrightarrow> b \<le> 0x8F))"

fun decodeTokens :: "uriToken list \<Rightarrow> string option" where
  "decodeTokens [] = Some []"
| "decodeTokens (Literal c # ts) = map_option ((#) c) (decodeTokens ts)"
| "decodeTokens (Escape a x y # ts) =
     (if a < 0x80 then
        (if char_of a \<in> set '';/?:@&=+$,#''
         then map_option ((@) [CHR ''%'', x, y]) (decodeTokens ts)
         else map_option ((#) (char_of a)) (decodeTokens ts))
      else
        (case ts of
           Escape b _ _ # ts1 \<Rightarrow>
             if utf8_2 a b then map_option ((@) [char_of a, char_of b]) (decodeTokens ts1)
             else
               (case ts1 of
                  Escape c _ _ # ts2 \<Rightarrow>
                    if utf8_3 a b c
                    then map_option ((@) [char_of a, char_of b, char_of c]) (decodeTokens ts2)
                    else
                      (case ts2 of
                         Escape d _ _ # ts3 \<Rightarrow>
                           if utf8_4 a b c d
                           then map_option ((@) [char_of a, char_of b, char_of c, char_of d])
                                  (decodeTokens ts3)
                           else None
                       | _ \<Rightarrow> None)
                | _ \<Rightarrow> None)
         | _ \<Rightarrow> None))"

definition ex_decodeURI :: "string \<Rightarrow> thrown + string" where
  "ex_decodeURI s =
     (case Option.bind (uriTokens s) decodeTokens of
        Some d \<Rightarrow> Inr d
      | None \<Rightarrow> Inl (ThrownError (URIError ''URI malformed'')))"

text \<open>
  The setter of \<^verbatim>\<open>pathname\<close> on an \<^verbatim>\<open>http\<close> URL, as the URL standard has it:
  the path is cut at its slashes and backslashes, a single-dot segment is
  dropped, a double-dot segment drops the segment before it, and the bytes of
  the path percent-encode set are escaped.
\<close>

definition hex_char :: "nat \<Rightarrow> char" where
  "hex_char n = ''0123456789ABCDEF'' ! n"

definition path_percent_encode :: "char \<Rightarrow> string" where
  "path_percent_encode c =
     (let n = (of_char c :: nat) in
      if n \<le> 0x1F \<or> 0x7E < n \<or> c \<in> set [CHR 0x20, CHR 0x22, CHR ''#'', CHR ''<'', CHR ''>'',
                                             CHR ''?'', CHR ''^'', CHR 0x60, CHR ''{'', CHR ''}'']
      then [CHR ''%'', hex_char (n div 16), hex_char (n mod 16)]
      else [c])"

definition single_dot :: "string \<Rightarrow> bool" where
  "single_dot seg = (map lower_char seg \<in> set [''.'', ''%2e''])"

definition double_dot :: "string \<Rightarrow> bool" where
  "double_dot seg = (map lower_char seg \<in> set [''..'', ''.%2e'', ''%2e.'', ''%2e%2e''])"

fun pathSegments :: "string list \<Rightarrow> string list \<Rightarrow> string list" where
  "pathSegments [] path = path"
| "pathSegments (seg # segs) path =
     (if double_dot seg then pathSegments segs (butlast path @ (if segs = [] then [[]] else []))
      else if single_dot seg then pathSegments segs (path @ (if segs = [] then [[]] else []))
      else pathSegments segs (path @ [concat (map path_percent_encode seg)]))"

definition ex_setPathname :: "string \<Rightarrow> string" where
  "ex_setPathname v =
     (let slashed = map (\<lambda>c. if c = CHR 0x5C then CHR ''/'' else c) v;
          rest = (case slashed of c # cs \<Rightarrow> if c = CHR ''/'' then cs else slashed | [] \<Rightarrow> [])
      in concat (map ((#) CHR ''/'') (pathSegments (split_str CHR ''/'' rest) [])))"

text \<open>\<^verbatim>\<open>String(value)\<close> on a thrown value.\<close>

fun decimal :: "nat \<Rightarrow> string" where
  "decimal n =
     (if n < 10 then [''0123456789'' ! n]
      else decimal (n div 10) @ [''0123456789'' ! (n mod 10)])"

fun jsval_String :: "jsval \<Rightarrow> string" where
  "jsval_String JNull = ''null''"
| "jsval_String (JBool b) = (if b then ''true'' else ''false'')"
| "jsval_String (JNum n) = (if n < 0 then ''-'' @ decimal (nat (- n)) else decimal (nat n))"
| "jsval_String (JStr t) = t"
| "jsval_String (JArr xs) =
     join_str '','' (map (\<lambda>x. if x = JNull then [] else jsval_String x) xs)"
| "jsval_String (JObj kvs) = ''[object Object]''"

definition error_String :: "string \<Rightarrow> string \<Rightarrow> string" where
  "error_String name m = (if m = [] then name else name @ '': '' @ m)"

definition ex_String :: "thrown \<Rightarrow> string" where
  "ex_String t =
     (case t of
        ThrownError (Error m) \<Rightarrow> error_String ''Error'' m
      | ThrownError (TypeError m) \<Rightarrow> error_String ''TypeError'' m
      | ThrownError (RangeError m) \<Rightarrow> error_String ''RangeError'' m
      | ThrownError (URIError m) \<Rightarrow> error_String ''URIError'' m
      | ThrownResponse _ _ \<Rightarrow> ''[object Response]''
      | ThrownErrorResponse _ \<Rightarrow> ''[object Object]''
      | ThrownOther v \<Rightarrow> jsval_String v)"

text \<open>\<^verbatim>\<open>isRedirectResponse\<close> as \<^verbatim>\<open>lib/router/router.ts\<close> has it.\<close>

definition ex_isRedirectResponse :: "response \<Rightarrow> bool" where
  "ex_isRedirectResponse res =
     (300 \<le> status res \<and> status res \<le> 399 \<and> Headers_has ''Location'' (headers res))"

text \<open>
  \<^verbatim>\<open>getManifestPath\<close> as \<^verbatim>\<open>lib/dom/ssr/fog-of-war.ts\<close> has it: the manifest
  path, \<^verbatim>\<open>/__manifest\<close> when none is configured, after the basename, runs of
  slashes made one slash.
\<close>

fun collapse_slashes :: "string \<Rightarrow> string" where
  "collapse_slashes (a # b # cs) =
     (if a = CHR ''/'' \<and> b = CHR ''/'' then collapse_slashes (b # cs)
      else a # collapse_slashes (b # cs))"
| "collapse_slashes cs = cs"

definition ex_getManifestPath :: "string option \<Rightarrow> string \<Rightarrow> string" where
  "ex_getManifestPath p base =
     collapse_slashes
       (base @ (case p of None \<Rightarrow> ''/__manifest'' | Some m \<Rightarrow> if m = [] then ''/__manifest'' else m))"

text \<open>
  The constructor of \<^verbatim>\<open>unstable_RouterContextProvider\<close> as \<^verbatim>\<open>lib/router/utils.ts\<close>
  has it: a truthy \<^verbatim>\<open>init\<close> is iterated, and each of its elements is
  destructured into a context and a value. Strings and arrays are iterable; a
  number, \<^verbatim>\<open>true\<close> and a plain object are not, and the loop throws a
  \<^verbatim>\<open>TypeError\<close> on them. The provider is kept as the list of its entries.
\<close>

definition ex_entry :: "jsval \<Rightarrow> thrown + jsval" where
  "ex_entry x =
     (case x of
        JArr ys \<Rightarrow> Inr (JArr [if 0 < length ys then ys ! 0 else JNull,
                               if 1 < length ys then ys ! 1 else JNull])
      | JStr t \<Rightarrow> Inr (JArr [if 0 < length t then JStr [t ! 0] else JNull,
                              if 1 < length t then JStr [t ! 1] else JNull])
      | _ \<Rightarrow> Inl (ThrownError (TypeError ''entry is not iterable'')))"

fun ex_entries :: "jsval list \<Rightarrow> thrown + jsval list" where
  "ex_entries [] = Inr []"
| "ex_entries (x # xs) =
     (case ex_entry x of
        Inl e \<Rightarrow> Inl e
      | Inr kv \<Rightarrow> (case ex_entries xs of Inl e \<Rightarrow> Inl e | Inr es \<Rightarrow> Inr (kv # es)))"

definition ex_RouterContextProvider :: "jsval option \<Rightarrow> thrown + loadContext" where
  "ex_RouterContextProvider init =
     (case init of
        None \<Rightarrow> Inr (RouterContextProvider (JArr []))
      | Some v \<Rightarrow>
          if \<not> truthy v then Inr (RouterContextProvider (JArr []))
          else
            (case v of
               JStr t \<Rightarrow> Inr (RouterContextProvider (JArr (map (\<lambda>c. JArr [JStr [c], JNull]) t)))
             | JArr xs \<Rightarrow>
                 (case ex_entries xs of
                    Inl e \<Rightarrow> Inl e
                  | Inr es \<Rightarrow> Inr (RouterContextProvider (JArr es)))
             | _ \<Rightarrow> Inl (ThrownError (TypeError ''init is not iterable''))))"

definition ex_root :: serverRoute where
  "ex_root =
     \<lparr> route_id = ''root'',
       route_module = \<lparr> module_default = Some ''Root'', module_ErrorBoundary = None \<rparr> \<rparr>"

definition ex_parent :: serverRoute where
  "ex_parent =
     \<lparr> route_id = ''routes/parent'',
       route_module = \<lparr> module_default = Some ''Parent'', module_ErrorBoundary = None \<rparr> \<rparr>"

definition ex_parent_index :: serverRoute where
  "ex_parent_index =
     \<lparr> route_id = ''routes/parent._index'',
       route_module = \<lparr> module_default = Some ''ParentIndex'', module_ErrorBoundary = None \<rparr> \<rparr>"

definition ex_child :: serverRoute where
  "ex_child =
     \<lparr> route_id = ''routes/parent.child'',
       route_module = \<lparr> module_default = Some ''Child'', module_ErrorBoundary = None \<rparr> \<rparr>"

definition ex_api :: serverRoute where
  "ex_api =
     \<lparr> route_id = ''routes/api'',
       route_module = \<lparr> module_default = None, module_ErrorBoundary = None \<rparr> \<rparr>"

text \<open>
  A matcher for the routes above. On \<^verbatim>\<open>/parent/child\<close> the last match has a
  param, \<^verbatim>\<open>id\<close>, that the first match does not have. The path \<^verbatim>\<open>/broken\<close>
  stands for a route table the matcher rejects.
\<close>

definition ex_matchServerRoutes ::
  "serverRoute list \<Rightarrow> string \<Rightarrow> string option \<Rightarrow> thrown + routeMatch list option" where
  "ex_matchServerRoutes routes path base =
     (if path = ''/broken'' then Inl (ThrownError (Error ''Invariant failed''))
      else if path = ''/'' then Inr (Some [\<lparr> route = ex_root, params = Map.empty \<rparr>])
      else if path = ''/parent'' then
        Inr (Some [\<lparr> route = ex_root, params = Map.empty \<rparr>,
                   \<lparr> route = ex_parent, params = Map.empty \<rparr>,
                   \<lparr> route = ex_parent_index, params = Map.empty \<rparr>])
      else if path = ''/parent/child'' then
        Inr (Some [\<lparr> route = ex_root, params = [''org'' \<mapsto> ''acme''] \<rparr>,
                   \<lparr> route = ex_parent, params = [''org'' \<mapsto> ''acme''] \<rparr>,
                   \<lparr> route = ex_child, params = [''org'' \<mapsto> ''acme'', ''id'' \<mapsto> ''7''] \<rparr>])
      else if path = ''/api'' then
        Inr (Some [\<lparr> route = ex_root, params = Map.empty \<rparr>,
                   \<lparr> route = ex_api, params = Map.empty \<rparr>])
      else Inr None)"

definition ex_context :: staticHandlerContext where
  "ex_context =
     \<lparr> statusCode = 200, loaderData = JObj [(''root'', JStr ''data'')], actionData = JNull,
       errors = None \<rparr>"

text \<open>
  A render function that, as the default entry does, sets the content type in
  the headers it is handed and constructs its response from them. It throws on
  its first two calls (the world counts them) and renders from the third on.
\<close>

definition ex_render ::
  "request \<Rightarrow> nat \<Rightarrow> headers \<Rightarrow> entryContext \<Rightarrow> loadContext \<Rightarrow> nat
     \<Rightarrow> ((thrown + response) \<times> headers) \<times> nat" where
  "ex_render req st hdrs entryContext loadContext w =
     (let hdrs' = Headers_set ''Content-Type'' ''text/html'' hdrs in
      ((if w < 2 then Inl (ThrownError (Error ''render failed''))
        else construct_Response (Some (BodyString ''<!DOCTYPE html>'')) st [] (Headers_copy hdrs'),
        hdrs'),
       Suc w))"

text \<open>
  A static handler. Its \<^verbatim>\<open>query\<close> throws for the path \<^verbatim>\<open>/crash\<close>; handed
  \<^verbatim>\<open>unstable_respond\<close>, it calls it on the context and returns the response,
  or throws what the callback threw.
\<close>

definition ex_staticHandler :: "nat staticHandler" where
  "ex_staticHandler =
     \<lparr> dataRoutes = JNull,
       query = (\<lambda>req loadContext respondGiven w.
          if pathname (req_url req) = ''/crash''
          then QueryReturn (Inl (ThrownError (Error ''loader crashed''))) w
          else if respondGiven
          then QueryRespond (Inr ex_context) w
                 (\<lambda>r w'. QueryReturn (case r of Inl e \<Rightarrow> Inl e | Inr res \<Rightarrow> Inr (Inl res)) w')
          else QueryReturn (Inr (Inr ex_context)) w),
       queryRoute =
         (\<lambda>req routeId loadContext respondGiven w. (Inr (Inr (JsonValue (JStr ''ok''))), w)) \<rparr>"

definition ex_singleFetch ::
  "nat serverBuild \<Rightarrow> ServerMode \<Rightarrow> nat staticHandler \<Rightarrow> request \<Rightarrow> url \<Rightarrow> loadContext
     \<Rightarrow> nat \<Rightarrow> (thrown list \<times> response) \<times> nat" where
  "ex_singleFetch build serverMode sh req handlerUrl loadContext w =
     (([ThrownError (Error ''loader failed'')],
       \<lparr> status = 200, statusText = [], headers = [(''X-Remix-Response'', ''yes'')],
         body = Some (BodyString ''data'') \<rparr>),
      w)"

text \<open>
  The collaborators of the examples. \<^verbatim>\<open>getBuildTimeHeader\<close> reads the header,
  as it does during a build; \<^verbatim>\<open>serializeError\<close> gives the message, which is
  replaced outside development mode, and leaves out the stack that development
  mode adds.
\<close>

definition ex_externals :: "nat externals" where
  "ex_externals =
     \<lparr> stripBasename = ex_stripBasename,
       decodeURI = ex_decodeURI,
       setPathname = ex_setPathname,
       String = ex_String,
       response_json = (\<lambda>res. Inr JNull),
       response_text = (\<lambda>res. Inr []),
       isRedirectResponse = ex_isRedirectResponse,
       getStaticContextFromError =
         (\<lambda>routes ctx e. ctx\<lparr> statusCode := 500, errors := Some [(''root'', e)] \<rparr>),
       createStaticHandler = (\<lambda>routes base. ex_staticHandler),
       new_RouterContextProvider = ex_RouterContextProvider,
       createEntryRouteModules = (\<lambda>routes. routes),
       sanitizeErrors = (\<lambda>errs serverMode. errs),
       serializeError =
         (\<lambda>e serverMode.
            JObj [(''message'',
                   JStr (if serverMode = Development then error_message e
                         else ''Unexpected Server Error''))]),
       serializeErrors = (\<lambda>errs serverMode. JNull),
       matchServerRoutes = ex_matchServerRoutes,
       createRoutes = (\<lambda>manifest. [ex_root, ex_parent, ex_parent_index, ex_child, ex_api]),
       createStaticHandlerDataRoutes = (\<lambda>manifest fut. manifest),
       createServerHandoffString =
         (\<lambda>h. case sh_criticalCss h of None \<Rightarrow> ''{}'' | Some css \<Rightarrow> css),
       getBuildTimeHeader = (\<lambda>req name. Headers_get name (req_headers req)),
       getDevServerHooks = None,
       singleFetchAction = ex_singleFetch,
       singleFetchLoaders = ex_singleFetch,
       getSingleFetchRedirect =
         (\<lambda>st hdrs base.
            JObj [(''redirect'', JStr (case Headers_get ''Location'' hdrs of Some l \<Rightarrow> l | None \<Rightarrow> [])),
                  (''status'', JNum (int st))]),
       SERVER_NO_BODY_STATUS_CODES = [100, 101, 204, 205, 304],
       SINGLE_FETCH_REDIRECT_STATUS = 202,
       getDocumentHeaders = (\<lambda>ctx build. [(''X-Status'', if statusCode ctx = 200 then ''ok'' else ''error'')]),
       getManifestPath = ex_getManifestPath \<rparr>"

definition ex_build :: "nat serverBuild" where
  "ex_build =
     \<lparr> entry =
         \<lparr> handleDocumentRequestFunction = ex_render, handleDataRequest = None,
           streamTimeout = None \<rparr>,
       build_routes = JNull,
       assets =
         \<lparr> version = ''2'',
           asset_routes =
             [(''root'', JStr ''root.js''), (''routes/parent'', JStr ''parent.js''),
              (''routes/parent._index'', JStr ''parent-index.js''),
              (''routes/parent.child'', JStr ''child.js'')] \<rparr>,
       basename = None,
       future = \<lparr> unstable_middleware = False \<rparr>,
       ssr = True,
       prerender = [],
       routeDiscovery = \<lparr> manifestPath = None \<rparr>,
       unstable_getCriticalCss = None \<rparr>"

definition ex_request :: "string \<Rightarrow> string \<Rightarrow> (string \<times> string) list \<Rightarrow> request" where
  "ex_request m path q =
     \<lparr> req_method = m, req_url = \<lparr> pathname = path, searchParams = q \<rparr>, req_headers = [],
       signal = False \<rparr>"

definition ex_state :: "nat \<Rightarrow> nat state" where
  "ex_state w = \<lparr> world = w, trace = [] \<rparr>"

definition ex_based_build :: "nat serverBuild" where
  "ex_based_build = ex_build\<lparr> basename := Some ''/base'' \<rparr>"

text \<open>
  For the proofs: the joins of the leading segments of a string split at a
  character, shortest first.
\<close>

definition cutsAt :: "char \<Rightarrow> string \<Rightarrow> string list" where
  "cutsAt c s = map (\<lambda>i. join_str [c] (take (i + 1) (split_str c s))) [0 ..< length (split_str c s)]"

text \<open>A static handler whose \<^verbatim>\<open>queryRoute\<close> ends in a given way, and values for it.\<close>

definition ex_resource_handler :: "thrown + response + unknown \<Rightarrow> nat staticHandler" where
  "ex_resource_handler r =
     ex_staticHandler\<lparr> queryRoute := (\<lambda>req routeId loadContext respondGiven w. (r, w)) \<rparr>"

definition ex_teapot :: response where
  "ex_teapot =
     \<lparr> status = 418, statusText = ''I am a teapot'', headers = [(''x-remix-catch'', ''no'')],
       body = Some (BodyString ''short and stout'') \<rparr>"

definition ex_not_found :: errorResponse where
  "ex_not_found =
     \<lparr> er_status = 404, er_statusText = ''Not Found'', er_data = JStr ''no such item'',
       er_error = None \<rparr>"

text \<open>
  For the statements about the trace: the calls of the render function among
  the events; the events one call of \<^verbatim>\<open>handleError\<close> adds (the dev server's
  hook, in development mode, and \<^verbatim>\<open>errorHandler\<close>); and the events of the
  loop over \<^verbatim>\<open>context.errors\<close> (lines 475 to 481).
\<close>

definition isRenderCall :: "event \<Rightarrow> bool" where
  "isRenderCall e = (case e of RenderCall _ _ _ \<Rightarrow> True | _ \<Rightarrow> False)"

definition reportEvents :: "'w externals \<Rightarrow> string option \<Rightarrow> params \<Rightarrow> thrown \<Rightarrow> event list" where
  "reportEvents ext mode ps e =
     (if mode = Some ''development''
         \<and> (case getDevServerHooks ext of
               Some hooks \<Rightarrow> hook_processRequestError hooks
             | None \<Rightarrow> False)
      then [ProcessRequestError e] else [])
     @ [ErrorHandlerCall e ps]"

definition contextReports ::
  "'w externals \<Rightarrow> string option \<Rightarrow> params \<Rightarrow> staticHandlerContext \<Rightarrow> event list" where
  "contextReports ext mode ps ctx =
     (case errors ctx of
        None \<Rightarrow> []
      | Some errs \<Rightarrow> concat (map (reportEvents ext mode ps) (filter reportable (map snd errs))))"

text \<open>
  A build with middleware whose render function always throws, and a static
  handler whose \<^verbatim>\<open>query\<close> calls \<^verbatim>\<open>unstable_respond\<close> on the context and, as
  the router does when a middleware throws after the response came back,
  calls it again on the context of that error.
\<close>

definition cex_render ::
  "request \<Rightarrow> nat \<Rightarrow> headers \<Rightarrow> entryContext \<Rightarrow> loadContext \<Rightarrow> nat
     \<Rightarrow> ((thrown + response) \<times> headers) \<times> nat" where
  "cex_render req st hdrs entryContext loadContext w =
     ((Inl (ThrownError (Error ''render failed'')), hdrs), Suc w)"


definition cex_build :: "nat serverBuild" where
  "cex_build =
     ex_build
       \<lparr> entry := (entry ex_build)\<lparr> handleDocumentRequestFunction := cex_render \<rparr>,
         future := \<lparr> unstable_middleware = True \<rparr> \<rparr>"


text \<open>Builds with \<^verbatim>\<open>ssr: false\<close>, with and without prerender paths.\<close>

definition ex_static_build :: "nat serverBuild" where
  "ex_static_build = ex_build\<lparr> ssr := False, prerender := [''/'', ''/parent/''] \<rparr>"

definition ex_spa_build :: "nat serverBuild" where
  "ex_spa_build = ex_build\<lparr> ssr := False \<rparr>"

text \<open>
  A \<^verbatim>\<open>handleDataRequest\<close> hook that answers one path with a redirect, and a
  build that registers it.
\<close>

definition ex_redirecting_hook ::
  "response \<Rightarrow> loadContext \<Rightarrow> params \<Rightarrow> request \<Rightarrow> nat \<Rightarrow> (thrown + response) \<times> nat" where
  "ex_redirecting_hook res loadContext ps req w =
     (Inr (if pathname (req_url req) = ''/parent/child.data''
           then \<lparr> status = 302, statusText = ''Found'', headers = [(''Location'', ''/login'')],
                  body = None \<rparr>
           else res),
      w)"

definition ex_hook_build :: "nat serverBuild" where
  "ex_hook_build =
     ex_build\<lparr> entry := (entry ex_build)\<lparr> handleDataRequest := Some ex_redirecting_hook \<rparr> \<rparr>"


definition traceExtends :: "(event \<Rightarrow> bool) \<Rightarrow> event list \<Rightarrow> event list \<Rightarrow> bool" where
  "traceExtends P tr tr' = (\<exists>evs. tr' = tr @ evs \<and> (\<forall>e \<in> set evs. P e))"

definition paramsAmong :: "params set \<Rightarrow> params set \<Rightarrow> event \<Rightarrow> bool" where
  "paramsAmong A B e =
     (case e of
        ErrorHandlerCall _ ps \<Rightarrow> ps \<in> A
      | HandleDataRequestCall _ ps \<Rightarrow> ps \<in> B
      | _ \<Rightarrow> True)"


text \<open>
  Collaborators whose resource route throws the response \<^verbatim>\<open>ex_teapot\<close>, with
  headers of the given guard.
\<close>

definition ex_throwing_externals :: "headersGuard \<Rightarrow> nat externals" where
  "ex_throwing_externals g =
     ex_externals
       \<lparr> createStaticHandler :=
           (\<lambda>routes base. ex_resource_handler (Inl (ThrownResponse ex_teapot g))) \<rparr>"

section \<open>Properties\<close>

subsection \<open>Strings and the example instances\<close>

lemma endsWith_iff: "endsWith s suf \<longleftrightarrow> (\<exists>q. s = q @ suf)"
  unfolding endsWith_def
  by (metis append_eq_conv_conj append_take_drop_id diff_add_inverse2 le_add2 length_append)

lemma ex_nb: "normalizedBasename ex_based_build = ''/base''"
  by (simp add: normalizedBasename_def ex_based_build_def ex_build_def)

lemma ex_sb: "stripBasename ex_externals = ex_stripBasename"
  by (simp add: ex_externals_def)

subsection \<open>Path normalization\<close>

text \<open>
  C8. The normalized path is computed in two steps. First: when the
  basename-relative path is exactly \<^verbatim>\<open>/_root.data\<close> the path becomes the
  (normalized) basename; else a path \<open>q @ ''.data''\<close> becomes \<open>q\<close>; else it
  is kept. Then: a result \<open>q @ ''/''\<close> becomes \<open>q\<close> (one slash is dropped)
  unless its basename-relative path is the root \<^verbatim>\<open>/\<close>; in every other case
  it is kept.
\<close>

theorem normalizePath_steps:
  fixes ext :: "'w externals"
  shows
  "(stripBasename ext (pathname u) (normalizedBasename build) = Some ''/_root.data''
      \<longrightarrow> withoutDataSuffix ext build u = normalizedBasename build)
   \<and> (stripBasename ext (pathname u) (normalizedBasename build) \<noteq> Some ''/_root.data''
      \<longrightarrow> (\<forall>q. pathname u = q @ ''.data'' \<longrightarrow> withoutDataSuffix ext build u = q)
        \<and> ((\<nexists>q. pathname u = q @ ''.data'') \<longrightarrow> withoutDataSuffix ext build u = pathname u))
   \<and> (stripBasename ext (withoutDataSuffix ext build u) (normalizedBasename build) \<noteq> Some ''/''
      \<longrightarrow> (\<forall>q. withoutDataSuffix ext build u = q @ ''/'' \<longrightarrow> normalizePath ext build u = q))
   \<and> (stripBasename ext (withoutDataSuffix ext build u) (normalizedBasename build) = Some ''/''
        \<or> (\<nexists>q. withoutDataSuffix ext build u = q @ ''/'')
      \<longrightarrow> normalizePath ext build u = withoutDataSuffix ext build u)"
proof (intro conjI impI allI)
  assume "stripBasename ext (pathname u) (normalizedBasename build) = Some ''/_root.data''"
  then show "withoutDataSuffix ext build u = normalizedBasename build"
    by (simp add: withoutDataSuffix_def)
next
  fix q
  assume "stripBasename ext (pathname u) (normalizedBasename build) \<noteq> Some ''/_root.data''"
    and "pathname u = q @ ''.data''"
  then show "withoutDataSuffix ext build u = q"
    by (simp add: withoutDataSuffix_def endsWith_iff)
next
  assume "stripBasename ext (pathname u) (normalizedBasename build) \<noteq> Some ''/_root.data''"
    and "\<nexists>q. pathname u = q @ ''.data''"
  then show "withoutDataSuffix ext build u = pathname u"
    by (simp add: withoutDataSuffix_def endsWith_iff)
next
  fix q
  assume "stripBasename ext (withoutDataSuffix ext build u) (normalizedBasename build) \<noteq> Some ''/''"
    and "withoutDataSuffix ext build u = q @ ''/''"
  then show "normalizePath ext build u = q"
    by (simp add: normalizePath_def endsWith_iff)
next
  assume "stripBasename ext (withoutDataSuffix ext build u) (normalizedBasename build) = Some ''/''
        \<or> (\<nexists>q. withoutDataSuffix ext build u = q @ ''/'')"
  then show "normalizePath ext build u = withoutDataSuffix ext build u"
    by (auto simp add: normalizePath_def endsWith_iff Let_def)
qed

text \<open>
  With the basename \<^verbatim>\<open>/base\<close>: \<^verbatim>\<open>/base/users/.data\<close> loses the suffix and then
  one slash, and \<^verbatim>\<open>/base/_root.data\<close> is the basename.
\<close>

theorem normalizePath_steps_witness:
  "normalizePath ex_externals ex_based_build
       \<lparr> pathname = ''/base/users/.data'', searchParams = [] \<rparr>
     = ''/base/users''
   \<and> normalizePath ex_externals ex_based_build
       \<lparr> pathname = ''/base/_root.data'', searchParams = [] \<rparr>
     = ''/base''"
proof -
  let ?u = "\<lparr> pathname = ''/base/users/.data'', searchParams = [] \<rparr>"
  let ?r = "\<lparr> pathname = ''/base/_root.data'', searchParams = [] \<rparr>"
  note U = normalizePath_steps [of ex_externals ?u ex_based_build]
  note R = normalizePath_steps [of ex_externals ?r ex_based_build]
  have u1: "stripBasename ex_externals (pathname ?u) (normalizedBasename ex_based_build)
              \<noteq> Some ''/_root.data''"
    by (simp add: ex_nb ex_sb ex_stripBasename_def startsWith_def endsWith_def lower_char_def)
  have u2: "withoutDataSuffix ex_externals ex_based_build ?u = ''/base/users/''"
    using U u1 by simp
  have u3: "stripBasename ex_externals ''/base/users/'' (normalizedBasename ex_based_build)
              \<noteq> Some ''/''"
    by (simp add: ex_nb ex_sb ex_stripBasename_def startsWith_def endsWith_def lower_char_def)
  have u4: "normalizePath ex_externals ex_based_build ?u = ''/base/users''"
    using U u2 u3 by simp
  have r1: "stripBasename ex_externals (pathname ?r) (normalizedBasename ex_based_build)
              = Some ''/_root.data''"
    by (simp add: ex_nb ex_sb ex_stripBasename_def startsWith_def endsWith_def lower_char_def)
  have r2: "withoutDataSuffix ex_externals ex_based_build ?r = ''/base''"
    using R r1 by (simp add: ex_nb)
  have r3: "stripBasename ex_externals ''/base'' (normalizedBasename ex_based_build) = Some ''/''"
    by (simp add: ex_nb ex_sb ex_stripBasename_def startsWith_def endsWith_def lower_char_def)
  have r4: "normalizePath ex_externals ex_based_build ?r = ''/base''"
    using R r2 r3 by simp
  show ?thesis using u4 r4 by simp
qed

subsection \<open>The manifest patch handler\<close>

lemma split_str_ne: "split_str c s \<noteq> []"
  by (induction s) (auto split: list.splits)

lemma join_str_Cons_Cons: "join_str sep ((x # w) # r) = x # join_str sep (w # r)"
  by (cases r) auto

lemma join_str_Nil_Cons: "r \<noteq> [] \<Longrightarrow> join_str [c] ([] # r) = c # join_str [c] r"
  by (cases r) auto


lemma cutsAt_Nil: "cutsAt c [] = [[]]"
  by (simp add: cutsAt_def)

lemma upt_shift: "[0 ..< Suc n] = 0 # map Suc [0 ..< n]"
  by (simp add: upt_conv_Cons map_Suc_upt del: upt_Suc)

lemma cutsAt_sep: "cutsAt c (c # xs) = [] # map ((#) c) (cutsAt c xs)"
proof -
  have ne: "\<And>i. take (Suc i) (split_str c xs) \<noteq> []"
    using split_str_ne [of c xs] by (cases "split_str c xs") auto
  show ?thesis
    unfolding cutsAt_def
    by (simp add: upt_shift comp_def join_str_Nil_Cons split_str_ne del: upt_Suc)
qed

lemma cutsAt_other: "x \<noteq> c \<Longrightarrow> cutsAt c (x # xs) = map ((#) x) (cutsAt c xs)"
proof -
  assume x: "x \<noteq> c"
  obtain w ws where S: "split_str c xs = w # ws"
    using split_str_ne [of c xs] by (cases "split_str c xs") auto
  show ?thesis
    unfolding cutsAt_def using x
    by (simp add: S upt_shift comp_def join_str_Cons_Cons del: upt_Suc)
qed

lemma set_cutsAt:
  "set (cutsAt c s) = {q. \<exists>rest. s = q @ rest \<and> (rest = [] \<or> hd rest = c)}"
proof (induction s)
  case Nil
  then show ?case by (auto simp: cutsAt_Nil)
next
  case (Cons x xs)
  show ?case
  proof (cases "x = c")
    case True
    show ?thesis
      unfolding True cutsAt_sep
      apply (simp add: Cons.IH)
      apply (auto simp: Cons_eq_append_conv)
      done
  next
    case False
    show ?thesis
      unfolding cutsAt_other [OF False]
      apply (simp add: Cons.IH)
      using False apply (auto simp: Cons_eq_append_conv)
      done
  qed
qed

lemma partialPaths_cuts:
  "partialPaths p = map ((#) CHR ''/'') (cutsAt CHR ''/'' (if startsWith p ''/'' then tl p else p))"
proof (cases "startsWith p ''/''")
  case True
  then obtain xs where p: "p = CHR ''/'' # xs"
    by (cases p) (auto simp: startsWith_def)
  show ?thesis
    unfolding partialPaths_def cutsAt_def
    by (simp add: p startsWith_def Let_def comp_def)
next
  case False
  then show ?thesis
    unfolding partialPaths_def cutsAt_def
    by (simp add: Let_def comp_def)
qed

lemma set_partialPaths:
  "set (partialPaths p) =
     {c. c \<noteq> [] \<and> (\<exists>rest. (if startsWith p ''/'' then p else ''/'' @ p) = c @ rest
                           \<and> (rest = [] \<or> hd rest = CHR ''/''))}"
proof (cases "startsWith p ''/''")
  case True
  then obtain xs where p: "p = CHR ''/'' # xs"
    by (cases p) (auto simp: startsWith_def)
  show ?thesis
    unfolding partialPaths_cuts set_map set_cutsAt
    using True by (auto simp: p Cons_eq_append_conv)
next
  case False
  show ?thesis
    unfolding partialPaths_cuts set_map set_cutsAt
    using False by (auto simp: Cons_eq_append_conv)
qed

lemma set_fold_Set_add: "set (fold Set_add xs acc) = set acc \<union> set xs"
  by (induction xs arbitrary: acc) (auto simp: Set_add_def)

lemma set_candidatePaths_aux:
  "set (fold (\<lambda>path paths. fold Set_add (partialPaths path) paths) ps acc)
     = set acc \<union> (\<Union>p \<in> set ps. set (partialPaths p))"
  by (induction ps arbitrary: acc) (auto simp: set_fold_Set_add)

lemma set_candidatePaths: "set (candidatePaths ps) = (\<Union>p \<in> set ps. set (partialPaths p))"
  by (simp add: candidatePaths_def set_candidatePaths_aux)

lemma patchMatches_step:
  "patchMatches a (m # ms) acc =
     patchMatches a ms
       (case map_of (asset_routes a) (route_id (route m)) of
          Some r \<Rightarrow> AList.update (route_id (route m)) r acc
        | None \<Rightarrow> acc)"
  by (simp add: patchMatches_def Let_def)

lemma patchMatches_Nil: "patchMatches a [] acc = acc"
  by (simp add: patchMatches_def)

lemma map_of_patchMatches:
  "map_of (patchMatches a ms acc) k =
     (if k \<in> route_id ` route ` set ms \<and> map_of (asset_routes a) k \<noteq> None
      then map_of (asset_routes a) k else map_of acc k)"
proof (induction ms arbitrary: acc)
  case Nil
  then show ?case by (simp add: patchMatches_Nil)
next
  case (Cons m ms)
  show ?case
    unfolding patchMatches_step Cons.IH
    by (auto simp: update_conv' split: option.splits)
qed

lemma distinct_patchMatches:
  "distinct (map fst acc) \<Longrightarrow> distinct (map fst (patchMatches a ms acc))"
proof (induction ms arbitrary: acc)
  case Nil
  then show ?case by (simp add: patchMatches_Nil)
next
  case (Cons m ms)
  show ?case
    unfolding patchMatches_step
    by (rule Cons.IH) (auto simp: Cons.prems distinct_update split: option.splits)
qed

lemma patchPaths_returns:
  fixes ext :: "'w externals"
  assumes "\<forall>c \<in> set paths. \<exists>r. matchServerRoutes ext routes c (basename build) = Inr r"
    and "distinct (map fst acc)"
  shows "\<exists>patches. patchPaths ext build routes paths acc = Inr patches
           \<and> distinct (map fst patches)
           \<and> (\<forall>k. map_of patches k =
                 (if (\<exists>c \<in> set paths. \<exists>ms. matchServerRoutes ext routes c (basename build) = Inr (Some ms)
                         \<and> k \<in> route_id ` route ` set ms)
                     \<and> map_of (asset_routes (assets build)) k \<noteq> None
                  then map_of (asset_routes (assets build)) k else map_of acc k))"
  using assms
proof (induction paths arbitrary: acc)
  case Nil
  then show ?case by simp
next
  case (Cons p ps)
  from Cons.prems(1) obtain r where r: "matchServerRoutes ext routes p (basename build) = Inr r"
    by auto
  from Cons.prems(1) have rest: "\<forall>c \<in> set ps. \<exists>r. matchServerRoutes ext routes c (basename build) = Inr r"
    by auto
  show ?case
  proof (cases r)
    case None
    from Cons.IH [OF rest Cons.prems(2)] show ?thesis
      by (simp add: r None)
  next
    case (Some ms)
    have d: "distinct (map fst (patchMatches (assets build) ms acc))"
      by (rule distinct_patchMatches [OF Cons.prems(2)])
    from Cons.IH [OF rest d] obtain patches where
      P: "patchPaths ext build routes ps (patchMatches (assets build) ms acc) = Inr patches"
      and D: "distinct (map fst patches)"
      and M: "\<forall>k. map_of patches k =
                 (if (\<exists>c \<in> set ps. \<exists>ms. matchServerRoutes ext routes c (basename build) = Inr (Some ms)
                         \<and> k \<in> route_id ` route ` set ms)
                     \<and> map_of (asset_routes (assets build)) k \<noteq> None
                  then map_of (asset_routes (assets build)) k
                  else map_of (patchMatches (assets build) ms acc) k)"
      by blast
    show ?thesis
      apply (simp add: r Some P D)
      apply (intro allI)
      apply (simp only: M [rule_format] map_of_patchMatches)
      apply auto
      done
  qed
qed


text \<open>
  C4. The manifest patch handler. A \<^verbatim>\<open>version\<close> parameter that differs from
  the build's asset version (or is absent) gives \<^verbatim>\<open>204\<close> with the header
  \<^verbatim>\<open>X-Remix-Reload-Document: true\<close>. Otherwise a query with no \<^verbatim>\<open>p\<close> gives
  \<^verbatim>\<open>400\<close>. Otherwise, when the matcher returns for every candidate, the
  response is \<^verbatim>\<open>200\<close> JSON with the immutable cache header, and its body is
  a mapping with one entry per route id: the asset-manifest entry of every id
  matched by a candidate of a requested path, and nothing else. The candidates
  of a path are all its ancestor prefixes: the non-empty prefixes of the path
  (with a leading slash) that end right before a slash or at the end of the path.
\<close>

theorem handleManifestRequest_contract:
  fixes ext :: "'w externals"
  shows
  "(Some (version (assets build)) \<noteq> searchParams_get ''version'' (searchParams u)
      \<longrightarrow> handleManifestRequest ext build routes u =
            Inr \<lparr> status = 204, statusText = [],
                  headers = [(''X-Remix-Reload-Document'', ''true'')], body = None \<rparr>)
   \<and> (Some (version (assets build)) = searchParams_get ''version'' (searchParams u)
        \<and> \<not> searchParams_has ''p'' (searchParams u)
      \<longrightarrow> handleManifestRequest ext build routes u =
            Inr \<lparr> status = 400, statusText = [],
                  headers = [(''content-type'', ''text/plain;charset=UTF-8'')],
                  body = Some (BodyString ''Invalid Request'') \<rparr>)
   \<and> (Some (version (assets build)) = searchParams_get ''version'' (searchParams u)
        \<and> searchParams_has ''p'' (searchParams u)
        \<and> (\<forall>p \<in> set (searchParams_getAll ''p'' (searchParams u)). \<forall>c \<in> set (partialPaths p).
              \<exists>r. matchServerRoutes ext routes c (basename build) = Inr r)
      \<longrightarrow> (\<exists>patches.
             handleManifestRequest ext build routes u =
               Inr \<lparr> status = 200, statusText = [],
                     headers = [(''Cache-Control'', ''public, max-age=31536000, immutable''),
                                (''content-type'', ''application/json'')],
                     body = Some (BodyJson (JObj patches)) \<rparr>
             \<and> distinct (map fst patches)
             \<and> (\<forall>k. map_of patches k =
                   (if \<exists>p \<in> set (searchParams_getAll ''p'' (searchParams u)).
                         \<exists>c \<in> set (partialPaths p).
                           \<exists>ms. matchServerRoutes ext routes c (basename build) = Inr (Some ms)
                                 \<and> k \<in> route_id ` route ` set ms
                    then map_of (asset_routes (assets build)) k
                    else None))))
   \<and> (\<forall>p. set (partialPaths p) =
          {c. c \<noteq> [] \<and> (\<exists>rest. (if startsWith p ''/'' then p else ''/'' @ p) = c @ rest
                                \<and> (rest = [] \<or> hd rest = CHR ''/''))})"
proof (intro conjI impI allI)
  assume "Some (version (assets build)) \<noteq> searchParams_get ''version'' (searchParams u)"
  then show "handleManifestRequest ext build routes u =
            Inr \<lparr> status = 204, statusText = [],
                  headers = [(''X-Remix-Reload-Document'', ''true'')], body = None \<rparr>"
    by (simp add: handleManifestRequest_def new_Response_def)
next
  assume "Some (version (assets build)) = searchParams_get ''version'' (searchParams u)
        \<and> \<not> searchParams_has ''p'' (searchParams u)"
  then show "handleManifestRequest ext build routes u =
            Inr \<lparr> status = 400, statusText = [],
                  headers = [(''content-type'', ''text/plain;charset=UTF-8'')],
                  body = Some (BodyString ''Invalid Request'') \<rparr>"
    by (simp add: handleManifestRequest_def new_Response_def Headers_has_def Headers_get_def)
next
  let ?ps = "searchParams_getAll ''p'' (searchParams u)"
  assume A: "Some (version (assets build)) = searchParams_get ''version'' (searchParams u)
        \<and> searchParams_has ''p'' (searchParams u)
        \<and> (\<forall>p \<in> set ?ps. \<forall>c \<in> set (partialPaths p).
              \<exists>r. matchServerRoutes ext routes c (basename build) = Inr r)"
  then have all: "\<forall>c \<in> set (candidatePaths ?ps).
                    \<exists>r. matchServerRoutes ext routes c (basename build) = Inr r"
    by (auto simp: set_candidatePaths)
  from patchPaths_returns [OF all, of "[]"] obtain patches where
    P: "patchPaths ext build routes (candidatePaths ?ps) [] = Inr patches"
    and D: "distinct (map fst patches)"
    and M: "\<forall>k. map_of patches k =
                 (if (\<exists>c \<in> set (candidatePaths ?ps).
                        \<exists>ms. matchServerRoutes ext routes c (basename build) = Inr (Some ms)
                         \<and> k \<in> route_id ` route ` set ms)
                     \<and> map_of (asset_routes (assets build)) k \<noteq> None
                  then map_of (asset_routes (assets build)) k else map_of [] k)"
    by auto
  have R: "handleManifestRequest ext build routes u =
               Inr \<lparr> status = 200, statusText = [],
                     headers = [(''Cache-Control'', ''public, max-age=31536000, immutable''),
                                (''content-type'', ''application/json'')],
                     body = Some (BodyJson (JObj patches)) \<rparr>"
    using A
    by (simp add: handleManifestRequest_def P Response_json_def Headers_has_def Headers_get_def
        same_name_def lower_char_def)
  have M': "\<forall>k. map_of patches k =
                   (if \<exists>p \<in> set ?ps. \<exists>c \<in> set (partialPaths p).
                           \<exists>ms. matchServerRoutes ext routes c (basename build) = Inr (Some ms)
                                 \<and> k \<in> route_id ` route ` set ms
                    then map_of (asset_routes (assets build)) k
                    else None)"
  proof
    fix k
    have eq: "(\<exists>c \<in> set (candidatePaths ?ps).
                 \<exists>ms. matchServerRoutes ext routes c (basename build) = Inr (Some ms)
                       \<and> k \<in> route_id ` route ` set ms)
              = (\<exists>p \<in> set ?ps. \<exists>c \<in> set (partialPaths p).
                   \<exists>ms. matchServerRoutes ext routes c (basename build) = Inr (Some ms)
                         \<and> k \<in> route_id ` route ` set ms)"
      unfolding set_candidatePaths by blast
    show "map_of patches k =
                   (if \<exists>p \<in> set ?ps. \<exists>c \<in> set (partialPaths p).
                           \<exists>ms. matchServerRoutes ext routes c (basename build) = Inr (Some ms)
                                 \<and> k \<in> route_id ` route ` set ms
                    then map_of (asset_routes (assets build)) k
                    else None)"
      using M [rule_format, of k] unfolding eq
      by (cases "map_of (asset_routes (assets build)) k") simp_all
  qed
  show "\<exists>patches.
             handleManifestRequest ext build routes u =
               Inr \<lparr> status = 200, statusText = [],
                     headers = [(''Cache-Control'', ''public, max-age=31536000, immutable''),
                                (''content-type'', ''application/json'')],
                     body = Some (BodyJson (JObj patches)) \<rparr>
             \<and> distinct (map fst patches)
             \<and> (\<forall>k. map_of patches k =
                   (if \<exists>p \<in> set ?ps. \<exists>c \<in> set (partialPaths p).
                           \<exists>ms. matchServerRoutes ext routes c (basename build) = Inr (Some ms)
                                 \<and> k \<in> route_id ` route ` set ms
                    then map_of (asset_routes (assets build)) k
                    else None))"
    using R D M' by blast
next
  fix p
  show "set (partialPaths p) =
          {c. c \<noteq> [] \<and> (\<exists>rest. (if startsWith p ''/'' then p else ''/'' @ p) = c @ rest
                                \<and> (rest = [] \<or> hd rest = CHR ''/''))}"
    by (rule set_partialPaths)
qed


lemma ex_partialPaths: "partialPaths ''/parent/child'' = [''/parent'', ''/parent/child'']"
  by (simp add: partialPaths_def startsWith_def Let_def upt_rec)

lemma ex_match: "matchServerRoutes ex_externals = ex_matchServerRoutes"
  by (simp add: ex_externals_def)

lemma ex_assets:
  "assets ex_build =
     \<lparr> version = ''2'',
       asset_routes =
         [(''root'', JStr ''root.js''), (''routes/parent'', JStr ''parent.js''),
          (''routes/parent._index'', JStr ''parent-index.js''),
          (''routes/parent.child'', JStr ''child.js'')] \<rparr>"
  by (simp add: ex_build_def)

text \<open>
  With asset version \<^verbatim>\<open>2\<close>: version \<^verbatim>\<open>1\<close> gives \<^verbatim>\<open>204\<close>; no \<^verbatim>\<open>p\<close> gives
  \<^verbatim>\<open>400\<close>; \<^verbatim>\<open>p=/parent/child\<close> gives the entries of the routes matched at
  \<^verbatim>\<open>/parent\<close> (the index route among them) and at \<^verbatim>\<open>/parent/child\<close>.
\<close>

theorem handleManifestRequest_contract_witness:
  "handleManifestRequest ex_externals ex_build []
       \<lparr> pathname = ''/__manifest'', searchParams = [(''version'', ''1''), (''p'', ''/parent/child'')] \<rparr>
     = Inr \<lparr> status = 204, statusText = [],
             headers = [(''X-Remix-Reload-Document'', ''true'')], body = None \<rparr>
   \<and> handleManifestRequest ex_externals ex_build []
       \<lparr> pathname = ''/__manifest'', searchParams = [(''version'', ''2'')] \<rparr>
     = Inr \<lparr> status = 400, statusText = [],
             headers = [(''content-type'', ''text/plain;charset=UTF-8'')],
             body = Some (BodyString ''Invalid Request'') \<rparr>
   \<and> (\<exists>patches.
        handleManifestRequest ex_externals ex_build []
            \<lparr> pathname = ''/__manifest'',
              searchParams = [(''version'', ''2''), (''p'', ''/parent/child'')] \<rparr>
          = Inr \<lparr> status = 200, statusText = [],
                  headers = [(''Cache-Control'', ''public, max-age=31536000, immutable''),
                             (''content-type'', ''application/json'')],
                  body = Some (BodyJson (JObj patches)) \<rparr>
        \<and> map_of patches ''routes/parent._index'' = Some (JStr ''parent-index.js'')
        \<and> map_of patches ''routes/parent.child'' = Some (JStr ''child.js'')
        \<and> map_of patches ''routes/api'' = None)
   \<and> set (partialPaths ''/parent/child'') = {''/parent'', ''/parent/child''}"
proof -
  let ?stale = "\<lparr> pathname = ''/__manifest'',
                  searchParams = [(''version'', ''1''), (''p'', ''/parent/child'')] \<rparr>"
  let ?nop = "\<lparr> pathname = ''/__manifest'', searchParams = [(''version'', ''2'')] \<rparr>"
  let ?u = "\<lparr> pathname = ''/__manifest'',
              searchParams = [(''version'', ''2''), (''p'', ''/parent/child'')] \<rparr>"
  have c1: "handleManifestRequest ex_externals ex_build [] ?stale
     = Inr \<lparr> status = 204, statusText = [],
             headers = [(''X-Remix-Reload-Document'', ''true'')], body = None \<rparr>"
    using handleManifestRequest_contract [of ex_build ?stale ex_externals "[]"]
    by (simp add: ex_assets searchParams_get_def)
  have c2: "handleManifestRequest ex_externals ex_build [] ?nop
     = Inr \<lparr> status = 400, statusText = [],
             headers = [(''content-type'', ''text/plain;charset=UTF-8'')],
             body = Some (BodyString ''Invalid Request'') \<rparr>"
    using handleManifestRequest_contract [of ex_build ?nop ex_externals "[]"]
    by (simp add: ex_assets searchParams_get_def searchParams_has_def)
  have ps: "searchParams_getAll ''p'' (searchParams ?u) = [''/parent/child'']"
    by (simp add: searchParams_getAll_def)
  have hyp: "Some (version (assets ex_build)) = searchParams_get ''version'' (searchParams ?u)
        \<and> searchParams_has ''p'' (searchParams ?u)
        \<and> (\<forall>p \<in> set (searchParams_getAll ''p'' (searchParams ?u)). \<forall>c \<in> set (partialPaths p).
              \<exists>r. matchServerRoutes ex_externals [] c (basename ex_build) = Inr r)"
    unfolding ps
    by (simp add: ex_assets searchParams_get_def searchParams_has_def ex_partialPaths ex_match
        ex_matchServerRoutes_def)
  from handleManifestRequest_contract [of ex_build ?u ex_externals "[]"] hyp
  obtain patches where
    R: "handleManifestRequest ex_externals ex_build [] ?u
          = Inr \<lparr> status = 200, statusText = [],
                  headers = [(''Cache-Control'', ''public, max-age=31536000, immutable''),
                             (''content-type'', ''application/json'')],
                  body = Some (BodyJson (JObj patches)) \<rparr>"
    and M: "\<forall>k. map_of patches k =
                   (if \<exists>p \<in> set (searchParams_getAll ''p'' (searchParams ?u)).
                         \<exists>c \<in> set (partialPaths p).
                           \<exists>ms. matchServerRoutes ex_externals [] c (basename ex_build) = Inr (Some ms)
                                 \<and> k \<in> route_id ` route ` set ms
                    then map_of (asset_routes (assets ex_build)) k
                    else None)"
    by blast
  have m1: "map_of patches ''routes/parent._index'' = Some (JStr ''parent-index.js'')"
    unfolding M [rule_format] ps
    by (simp add: ex_partialPaths ex_match ex_matchServerRoutes_def ex_assets
        ex_root_def ex_parent_def ex_parent_index_def ex_child_def)
  have m2: "map_of patches ''routes/parent.child'' = Some (JStr ''child.js'')"
    unfolding M [rule_format] ps
    by (simp add: ex_partialPaths ex_match ex_matchServerRoutes_def ex_assets
        ex_root_def ex_parent_def ex_parent_index_def ex_child_def)
  have m3: "map_of patches ''routes/api'' = None"
    unfolding M [rule_format] ps
    by (simp add: ex_partialPaths ex_match ex_matchServerRoutes_def ex_assets
        ex_root_def ex_parent_def ex_parent_index_def ex_child_def)
  have c4: "set (partialPaths ''/parent/child'') = {''/parent'', ''/parent/child''}"
    by (simp add: ex_partialPaths)
  show ?thesis using c1 c2 R m1 m2 m3 c4 by blast
qed

subsection \<open>The constructors of responses\<close>


text \<open>A copy of a \<^verbatim>\<open>Headers\<close> object gives every name the value the original gives it.\<close>

lemma lower_char_idem [simp]: "lower_char (lower_char c) = lower_char c"
proof (cases "map_of (zip ''ABCDEFGHIJKLMNOPQRSTUVWXYZ'' ''abcdefghijklmnopqrstuvwxyz'') c")
  case None
  then show ?thesis by (simp add: lower_char_def)
next
  case (Some d)
  then have "d \<in> set ''abcdefghijklmnopqrstuvwxyz''"
    by (meson map_of_SomeD set_zip_rightD)
  then have "d \<notin> set ''ABCDEFGHIJKLMNOPQRSTUVWXYZ''" by auto
  then have "map_of (zip ''ABCDEFGHIJKLMNOPQRSTUVWXYZ'' ''abcdefghijklmnopqrstuvwxyz'') d = None"
    by (metis map_of_SomeD not_Some_eq set_zip_leftD)
  then show ?thesis using Some by (simp add: lower_char_def)
qed

lemma lower_char_comp [simp]: "lower_char \<circ> lower_char = lower_char"
  by (rule ext) simp

lemma same_name_lower [simp]: "same_name n (map lower_char name) = same_name n name"
  by (simp add: same_name_def)

lemma set_insert_sorted [simp]: "set (insert_sorted n ns) = insert n (set ns)"
  by (induction ns) auto

lemma distinct_insert_sorted: "n \<notin> set ns \<Longrightarrow> distinct ns \<Longrightarrow> distinct (insert_sorted n ns)"
  by (induction ns) auto

lemma fold_names:
  "distinct acc \<Longrightarrow>
     set (fold (\<lambda>n ns. if n \<in> set ns then ns else insert_sorted n ns) xs acc) = set acc \<union> set xs
     \<and> distinct (fold (\<lambda>n ns. if n \<in> set ns then ns else insert_sorted n ns) xs acc)"
proof (induction xs arbitrary: acc)
  case Nil
  then show ?case by simp
next
  case (Cons x xs)
  show ?case
  proof (cases "x \<in> set acc")
    case True
    then show ?thesis using Cons.IH [OF Cons.prems] by auto
  next
    case False
    then show ?thesis
      using Cons.IH [OF distinct_insert_sorted [OF False Cons.prems]] by auto
  qed
qed

lemma sorted_lowercase_names:
  "set (sorted_lowercase_names h) = (\<lambda>(n, _). map lower_char n) ` set h"
  "distinct (sorted_lowercase_names h)"
  using fold_names [of "[]" "map (\<lambda>(n, _). map lower_char n) h"]
  by (simp_all add: sorted_lowercase_names_def)




text \<open>
  The constructor accepts the literal arguments of the source: the responses
  with the statuses \<^verbatim>\<open>200\<close>, \<^verbatim>\<open>400\<close>, \<^verbatim>\<open>404\<close> and \<^verbatim>\<open>500\<close>, with or without
  a body, and the response without a body with the status \<^verbatim>\<open>204\<close>.
\<close>

lemma reason_phrase_literals [simp]:
  "reason_phrase []" "reason_phrase ''Not Found''"
  by (simp_all add: reason_phrase_def)

lemma construct_Response_literals:
  "construct_Response b 200 [] h = Inr (new_Response b 200 [] h)"
  "construct_Response b 400 [] h = Inr (new_Response b 400 [] h)"
  "construct_Response b 404 ''Not Found'' h = Inr (new_Response b 404 ''Not Found'' h)"
  "construct_Response b 500 [] h = Inr (new_Response b 500 [] h)"
  "construct_Response None 204 [] h = Inr (new_Response None 204 [] h)"
  by (simp_all add: construct_Response_def initialize_response_error_def null_body_status_def)


subsection \<open>The resource handler\<close>

lemma status_lastResort [simp]: "status (returnLastResortErrorResponse ext e m) = 500"
  by (simp add: returnLastResortErrorResponse_def new_Response_def Let_def)











text \<open>
  C6 fails on the code in its first case. A resource route throws a response
  whose headers are immutable, as those of a response from \<^verbatim>\<open>fetch\<close> or from
  \<^verbatim>\<open>Response.redirect\<close> are: \<^verbatim>\<open>error.headers.set\<close> (line 640) throws a
  \<^verbatim>\<open>TypeError\<close> inside the \<^verbatim>\<open>catch\<close> clause, and \<^verbatim>\<open>requestHandler\<close> rejects with
  it, where C6 has the thrown response returned with the header
  \<^verbatim>\<open>X-Remix-Catch: yes\<close>. Nothing is reported. The same response with headers
  that can be set is returned with the header.
\<close>

theorem thrown_immutable_response_rejects:
  "fst (requestHandler (ex_throwing_externals GuardImmutable) ex_build None
          (ex_request ''GET'' ''/api'' []) None (ex_state 0))
     = Inl (ThrownError (TypeError ''immutable''))
   \<and> length (trace (snd (requestHandler (ex_throwing_externals GuardImmutable) ex_build None
                           (ex_request ''GET'' ''/api'' []) None (ex_state 0)))) = 0
   \<and> fst (requestHandler (ex_throwing_externals GuardResponse) ex_build None
          (ex_request ''GET'' ''/api'' []) None (ex_state 0))
     = Inr \<lparr> status = 418, statusText = ''I am a teapot'',
              headers = [(''x-remix-catch'', ''yes'')],
              body = Some (BodyString ''short and stout'') \<rparr>"
  by code_simp

subsection \<open>The document handler\<close>


lemma statusCode_sanitize [simp]:
  "statusCode (sanitizeContextErrors ext serverMode ctx) = statusCode ctx"
  by (simp add: sanitizeContextErrors_def split: option.splits)





lemma no_render_in_reports [simp]:
  "filter isRenderCall (reportEvents ext mode ps e) = []"
  "filter isRenderCall (contextReports ext mode ps ctx) = []"
proof -
  show r: "\<And>e. filter isRenderCall (reportEvents ext mode ps e) = []"
    by (simp add: reportEvents_def isRenderCall_def)
  show "filter isRenderCall (contextReports ext mode ps ctx) = []"
    by (cases "errors ctx") (simp_all add: contextReports_def filter_concat comp_def r)
qed

lemma isRenderCall_RenderCall [simp]: "isRenderCall (RenderCall st h ec)"
  by (simp add: isRenderCall_def)



















subsection \<open>SPA mode\<close>

text \<open>
  C5 fails on the code at a path with a malformed escape. The build has SSR
  disabled and no prerender paths, so C5 has every request handled in SPA
  mode; but \<^verbatim>\<open>decodeURI\<close> (line 176) is called before the prerender list is
  looked at, it throws a \<^verbatim>\<open>URIError\<close> on the path \<^verbatim>\<open>/%\<close>, and \<^verbatim>\<open>requestHandler\<close>
  rejects with it: nothing is rendered and nothing is reported.
\<close>

theorem malformed_escape_rejects:
  "fst (requestHandler ex_externals ex_spa_build None (ex_request ''GET'' ''/%'' []) None
          (ex_state 0))
     = Inl (ThrownError (URIError ''URI malformed''))
   \<and> length (trace (snd (requestHandler ex_externals ex_spa_build None
                           (ex_request ''GET'' ''/%'' []) None (ex_state 0)))) = 0"
  by code_simp

subsection \<open>The pass for HEAD\<close>

text \<open>
  C2 fails on the code at the early exits. The pass that answers a \<^verbatim>\<open>HEAD\<close>
  request without a body (lines 330 to 336) comes after the strategies, and
  the \<^verbatim>\<open>return\<close> statements before it end the handler: a \<^verbatim>\<open>HEAD\<close> request
  gets a body from the manifest handler, for a load context that cannot be
  created (a plain object where middleware wants a \<^verbatim>\<open>Map\<close>), for a \<^verbatim>\<open>.data\<close>
  path that is not prerendered with SSR disabled, and for a redirect from the
  \<^verbatim>\<open>handleDataRequest\<close> hook. The resource route of the same build goes through
  the pass: its \<^verbatim>\<open>HEAD\<close> response has no body.
\<close>

theorem head_early_exits_keep_body:
  "fst (requestHandler ex_externals ex_build None
          (ex_request ''HEAD'' ''/__manifest'' [(''version'', ''2'')]) None (ex_state 0))
     = Inr \<lparr> status = 400, statusText = [],
              headers = [(''content-type'', ''text/plain;charset=UTF-8'')],
              body = Some (BodyString ''Invalid Request'') \<rparr>
   \<and> fst (requestHandler ex_externals ex_build None
          (ex_request ''HEAD'' ''/__manifest'' [(''version'', ''2''), (''p'', ''/parent'')]) None
          (ex_state 0))
     = Inr \<lparr> status = 200, statusText = [],
              headers = [(''Cache-Control'', ''public, max-age=31536000, immutable''),
                         (''content-type'', ''application/json'')],
              body = Some (BodyJson (JObj [(''root'', JStr ''root.js''),
                                            (''routes/parent'', JStr ''parent.js''),
                                            (''routes/parent._index'', JStr ''parent-index.js'')])) \<rparr>
   \<and> fst (requestHandler ex_externals cex_build None (ex_request ''HEAD'' ''/parent'' [])
          (Some (JObj [])) (ex_state 0))
     = Inr \<lparr> status = 500, statusText = [], headers = [(''Content-Type'', ''text/plain'')],
              body = Some (BodyString ''Unexpected Server Error'') \<rparr>
   \<and> fst (requestHandler ex_externals ex_static_build None
          (ex_request ''HEAD'' ''/parent/child.data'' []) None (ex_state 0))
     = Inr \<lparr> status = 404, statusText = ''Not Found'',
              headers = [(''content-type'', ''text/plain;charset=UTF-8'')],
              body = Some (BodyString ''Not Found'') \<rparr>
   \<and> fst (requestHandler ex_externals ex_hook_build None
          (ex_request ''HEAD'' ''/parent/child.data'' []) None (ex_state 0))
     = Inr \<lparr> status = 202, statusText = [],
              headers = [(''content-type'', ''text/x-script''), (''location'', ''/login'')],
              body = Some (BodyStream
                       (TurboStream
                          (RedirectResult (JObj [(''redirect'', JStr ''/login''),
                                                 (''status'', JNum 302)]))
                          False None Production)) \<rparr>
   \<and> fst (requestHandler ex_externals ex_build None (ex_request ''HEAD'' ''/api'' []) None
          (ex_state 0))
     = Inr \<lparr> status = 200, statusText = [],
              headers = [(''content-type'', ''text/plain;charset=UTF-8'')], body = None \<rparr>"
  by code_simp

subsection \<open>The request handler and its strategies\<close>

text \<open>
  How \<^verbatim>\<open>requestHandler\<close> ends: a \<^verbatim>\<open>return\<close> statement of the body gives its
  response as it is; the response of a strategy goes through the pass for
  \<^verbatim>\<open>HEAD\<close>. A request whose load context is created, that is not answered by
  the \<^verbatim>\<open>404\<close> of SPA mode and whose path is not the manifest path is answered
  by the strategies.
\<close>

lemma requestHandler_ends:
  "selectResponse ext build mode req initialContext s = (c, s') \<Longrightarrow>
     requestHandler ext build mode req initialContext s
       = (case c of
            Throw e \<Rightarrow> Inl e
          | Return r \<Rightarrow> Inr r
          | Normal res \<Rightarrow>
              if req_method req = ''HEAD''
              then construct_Response None (status res) (statusText res)
                     (Headers_copy (headers res))
              else Inr res,
          s')"
  by (simp add: requestHandler_def split: completion.splits)

lemma selectResponse_strategies:
  assumes "createLoadContext ext build mode (derive_serverMode mode) initialContext s
             = (Normal loadContext, s1)"
    and "spaMode ext build req (normalizePath ext build (req_url req)) s1
           = (Normal isSpaMode, s2)"
    and "pathname (req_url req)
           \<noteq> getManifestPath ext (manifestPath (routeDiscovery build)) (normalizedBasename build)"
  shows "selectResponse ext build mode req initialContext s
         = produceResponse ext mode (derive_serverMode mode) build
             (createRoutes ext (build_routes build))
             (createStaticHandler ext
                (createStaticHandlerDataRoutes ext (build_routes build) (future build))
                (basename build))
             req loadContext (normalizePath ext build (req_url req)) isSpaMode s2"
  using assms by (simp add: selectResponse_def Let_def)

subsection \<open>The single-fetch strategy\<close>










end
